theory Spec2Isabelle
  imports Complex_Main
begin

section \<open>Python values\<close>

text \<open>
  The payloads of the remote API are decoded JSON, and the attributes of the ORM objects
  are the same values plus the datetimes produced by the timestamp parser. One datatype
  holds them all. A double is a rational or one of the three special values; the code
  never computes with a float, it only tests, stores and converts it. A dict is an
  association list in which the first binding of a key is the one that counts.
  \<open>PObject\<close> stands for an object of any other class.
\<close>

datatype tzinfo = UTC | Zone string

datatype datetime = Datetime (instant: int) (tzinfo: "tzinfo option")

datatype pyfloat = Finite rat | PosInf | NegInf | NaN

datatype pyval =
    PNone
  | PBool bool
  | PInt int
  | PFloat pyfloat
  | PStr string
  | PList "pyval list"
  | PDict "(string \<times> pyval) list"
  | PDatetime datetime
  | PObject string

text \<open>Every exception of the model is a subclass of Python's \<open>Exception\<close>.\<close>

datatype exn =
    KeyError string
  | TypeError
  | AttributeError
  | ValueError
  | OverflowError
  | OSError
  | IndexError
  | IntegrityError
  | PelotonAPIError
  | OtherError string

type_synonym row = "(string \<times> pyval) list"

datatype table =
  Users | Instructors | Rides | Workouts | Summaries | Metrics | Achievements | SyncLogs

type_synonym db = "table \<Rightarrow> row list"

text \<open>Truthiness, as \<open>if x:\<close> and \<open>not x\<close> read it.\<close>

fun truthy :: "pyval \<Rightarrow> bool" where
  "truthy PNone = False"
| "truthy (PBool b) = b"
| "truthy (PInt n) = (n \<noteq> 0)"
| "truthy (PFloat f) = (f \<noteq> Finite 0)"
| "truthy (PStr s) = (s \<noteq> [])"
| "truthy (PList xs) = (xs \<noteq> [])"
| "truthy (PDict kvs) = (kvs \<noteq> [])"
| "truthy (PDatetime d) = True"
| "truthy (PObject c) = True"

definition bindE :: "exn + 'a \<Rightarrow> ('a \<Rightarrow> exn + 'b) \<Rightarrow> exn + 'b" where
  "bindE m f = (case m of Inl e \<Rightarrow> Inl e | Inr x \<Rightarrow> f x)"

fun mapE :: "('a \<Rightarrow> exn + 'b) \<Rightarrow> 'a list \<Rightarrow> exn + 'b list" where
  "mapE f [] = Inr []"
| "mapE f (x # xs) = bindE (f x) (\<lambda>y. bindE (mapE f xs) (\<lambda>ys. Inr (y # ys)))"

text \<open>\<open>d.get(k, default)\<close> on a dict.\<close>

definition dget :: "(string \<times> pyval) list \<Rightarrow> string \<Rightarrow> pyval \<Rightarrow> pyval" where
  "dget d k dflt = (case map_of d k of None \<Rightarrow> dflt | Some v \<Rightarrow> v)"

text \<open>\<open>x.get(k, default)\<close> on any value: only a dict has the method.\<close>

fun py_get :: "pyval \<Rightarrow> string \<Rightarrow> pyval \<Rightarrow> exn + pyval" where
  "py_get (PDict d) k dflt = Inr (dget d k dflt)"
| "py_get v k dflt = Inl AttributeError"

text \<open>\<open>x[k]\<close> with a string key: KeyError on a dict without the key, TypeError elsewhere.\<close>

fun subscript :: "pyval \<Rightarrow> string \<Rightarrow> exn + pyval" where
  "subscript (PDict d) k = (case map_of d k of None \<Rightarrow> Inl (KeyError k) | Some v \<Rightarrow> Inr v)"
| "subscript v k = Inl TypeError"

definition dict_keys :: "(string \<times> pyval) list \<Rightarrow> string list" where
  "dict_keys d = remdups (map fst d)"

text \<open>\<open>len(x)\<close> and \<open>for y in x\<close>: lists, strings and dicts (its keys) only.\<close>

fun py_len :: "pyval \<Rightarrow> exn + nat" where
  "py_len (PList xs) = Inr (length xs)"
| "py_len (PStr s) = Inr (length s)"
| "py_len (PDict d) = Inr (length (dict_keys d))"
| "py_len v = Inl TypeError"

fun py_iter :: "pyval \<Rightarrow> exn + pyval list" where
  "py_iter (PList xs) = Inr xs"
| "py_iter (PStr s) = Inr (map (\<lambda>c. PStr [c]) s)"
| "py_iter (PDict d) = Inr (map PStr (dict_keys d))"
| "py_iter v = Inl TypeError"

definition startswith :: "string \<Rightarrow> string \<Rightarrow> bool" where
  "startswith s p = (take (length p) s = p)"

section \<open>The collaborators\<close>

text \<open>
  The remote API, the library functions and the store's constraint checking are not
  code of the repository: they are parameters. An API call returns a decoded payload or
  raises; \<open>lib_fromtimestamp\<close> is the conversion inside \<open>datetime.fromtimestamp\<close>,
  \<open>lib_parse_date\<close> is \<open>dateutil.parser.parse\<close>, \<open>lib_float\<close> is \<open>float\<close> on a string
  (\<open>None\<close> for its ValueError). \<open>clock\<close> is the reading of \<open>datetime.now\<close> and of the store's
  \<open>now()\<close>. \<open>store_accepts\<close> says whether the store's constraints (not-null, foreign key,
  unique) accept the rows a flush or commit writes.
\<close>

record env =
  api_user_info :: "exn + pyval"
  api_user_workouts :: "int \<Rightarrow> exn + pyval"
  api_performance_graph :: "pyval \<Rightarrow> exn + pyval"
  lib_fromtimestamp :: "pyval \<Rightarrow> exn + int"
  lib_parse_date :: "string \<Rightarrow> exn + datetime"
  lib_float :: "string \<Rightarrow> pyfloat option"
  clock :: int
  store_accepts :: "db \<Rightarrow> bool"

text \<open>\<open>datetime.fromtimestamp(x, tz=timezone.utc)\<close>: the result carries the zone passed.\<close>

definition datetime_fromtimestamp :: "env \<Rightarrow> pyval \<Rightarrow> exn + datetime" where
  "datetime_fromtimestamp E x =
     (case lib_fromtimestamp E x of Inl e \<Rightarrow> Inl e | Inr i \<Rightarrow> Inr (Datetime i (Some UTC)))"

definition now :: "env \<Rightarrow> pyval" where
  "now E = PDatetime (Datetime (clock E) (Some UTC))"

section \<open>data\_transformer.py\<close>

text \<open>
  In the transformers, \<open>data["id"]\<close> is evaluated first: a payload that is not a dict
  fails there with TypeError, so the \<open>.get\<close> calls after it always see a dict.

  \<open>_parse_timestamp\<close>. \<open>parse_timestamp_try\<close> is the body of the outer \<open>try\<close>: the
  numeric branch (a bool is an int in Python), the string branch with its inner
  \<open>try\<close>/\<open>except Exception\<close> around the ISO parse and its \<open>except ValueError\<close> around the
  Unix-string parse, and the fall-through for any other type.
\<close>

fun parse_timestamp_try :: "env \<Rightarrow> pyval \<Rightarrow> exn + datetime option" where
  "parse_timestamp_try E (PInt n) = bindE (datetime_fromtimestamp E (PInt n)) (\<lambda>d. Inr (Some d))"
| "parse_timestamp_try E (PBool b) = bindE (datetime_fromtimestamp E (PBool b)) (\<lambda>d. Inr (Some d))"
| "parse_timestamp_try E (PFloat f) = bindE (datetime_fromtimestamp E (PFloat f)) (\<lambda>d. Inr (Some d))"
| "parse_timestamp_try E (PStr s) =
     (case lib_parse_date E s of
        Inr parsed_dt \<Rightarrow>
          Inr (Some (if tzinfo parsed_dt = None then Datetime (instant parsed_dt) (Some UTC)
                     else parsed_dt))
      | Inl e \<Rightarrow>
          (case lib_float E s of
             None \<Rightarrow> Inr None
           | Some unix_timestamp \<Rightarrow>
               (case datetime_fromtimestamp E (PFloat unix_timestamp) of
                  Inr d \<Rightarrow> Inr (Some d)
                | Inl e' \<Rightarrow> if e' = ValueError then Inr None else Inl e')))"
| "parse_timestamp_try E v = Inr None"

definition parse_timestamp :: "env \<Rightarrow> pyval \<Rightarrow> exn + datetime option" where
  "parse_timestamp E timestamp =
     (if timestamp = PNone then Inr None
      else (case parse_timestamp_try E timestamp of Inl e \<Rightarrow> Inr None | Inr r \<Rightarrow> Inr r))"

definition of_dt :: "datetime option \<Rightarrow> pyval" where
  "of_dt r = (case r of None \<Rightarrow> PNone | Some d \<Rightarrow> PDatetime d)"

text \<open>
  A model instance is its \<open>__dict__\<close>: the attributes the constructor was given, after
  the ORM's private \<open>_sa_instance_state\<close>.
\<close>

definition sa_state :: "string \<times> pyval" where
  "sa_state = (''_sa_instance_state'', PObject ''InstanceState'')"

definition opt :: "(string \<times> pyval) list \<Rightarrow> string \<Rightarrow> string \<times> pyval" where
  "opt d k = (k, dget d k PNone)"

definition dflt :: "(string \<times> pyval) list \<Rightarrow> string \<Rightarrow> pyval \<Rightarrow> string \<times> pyval" where
  "dflt d k v = (k, dget d k v)"

definition stamp :: "env \<Rightarrow> (string \<times> pyval) list \<Rightarrow> string \<Rightarrow> exn + pyval" where
  "stamp E d k = bindE (parse_timestamp E (dget d k PNone)) (\<lambda>r. Inr (of_dt r))"

fun transform_user_data :: "env \<Rightarrow> pyval \<Rightarrow> exn + row" where
  "transform_user_data E (PDict d) =
     bindE (subscript (PDict d) ''id'') (\<lambda>i.
     bindE (stamp E d ''created_at'') (\<lambda>c.
       Inr [sa_state, (''id'', i), dflt d ''username'' (PStr []), opt d ''email'',
            opt d ''first_name'', opt d ''last_name'', opt d ''location'', opt d ''timezone'',
            (''created_at'', c)]))"
| "transform_user_data E v = Inl TypeError"

fun transform_instructor_data :: "pyval \<Rightarrow> exn + row" where
  "transform_instructor_data (PDict d) =
     bindE (subscript (PDict d) ''id'') (\<lambda>i.
       Inr [sa_state, (''id'', i), dflt d ''name'' (PStr []), opt d ''first_name'',
            opt d ''last_name'', opt d ''bio'', opt d ''image_url''])"
| "transform_instructor_data v = Inl TypeError"

fun transform_ride_data :: "env \<Rightarrow> pyval \<Rightarrow> exn + row" where
  "transform_ride_data E (PDict d) =
     bindE (subscript (PDict d) ''id'') (\<lambda>i.
     bindE (stamp E d ''original_air_time'') (\<lambda>t1.
     bindE (stamp E d ''scheduled_start_time'') (\<lambda>t2.
       Inr [sa_state, (''id'', i), dflt d ''title'' (PStr []), opt d ''description'',
            opt d ''instructor_id'', dflt d ''fitness_discipline'' (PStr []),
            opt d ''fitness_discipline_display_name'', opt d ''duration'',
            opt d ''difficulty_estimate'', opt d ''difficulty_rating_avg'',
            opt d ''difficulty_rating_count'', opt d ''overall_rating_avg'',
            opt d ''overall_rating_count'', opt d ''total_workouts'',
            (''original_air_time'', t1), (''scheduled_start_time'', t2),
            dflt d ''is_archived'' (PBool False), dflt d ''is_explicit'' (PBool False),
            opt d ''language'', opt d ''location'', opt d ''image_url''])))"
| "transform_ride_data E v = Inl TypeError"

text \<open>
  \<open>ride_id=workout_data.get("ride", {}).get("id") if workout_data.get("ride") else None\<close>.
\<close>

definition workout_ride_id :: "(string \<times> pyval) list \<Rightarrow> exn + pyval" where
  "workout_ride_id d =
     (if truthy (dget d ''ride'' PNone) then py_get (dget d ''ride'' (PDict [])) ''id'' PNone
      else Inr PNone)"

fun transform_workout_data :: "env \<Rightarrow> pyval \<Rightarrow> exn + row" where
  "transform_workout_data E (PDict d) =
     bindE (subscript (PDict d) ''id'') (\<lambda>i.
     bindE (workout_ride_id d) (\<lambda>rid.
     bindE (stamp E d ''start_time'') (\<lambda>t1.
     bindE (stamp E d ''end_time'') (\<lambda>t2.
     bindE (stamp E d ''created_at'') (\<lambda>t3.
     bindE (stamp E d ''device_time_created_at'') (\<lambda>t4.
       Inr [sa_state, (''id'', i), opt d ''user_id'', (''ride_id'', rid), opt d ''name'',
            dflt d ''status'' (PStr []), dflt d ''fitness_discipline'' (PStr []),
            opt d ''workout_type'', opt d ''device_type'', opt d ''device_type_display_name'',
            opt d ''platform'', (''start_time'', t1), (''end_time'', t2),
            (''created_at_peloton'', t3), (''device_time_created_at'', t4),
            opt d ''timezone'', opt d ''total_work'', opt d ''leaderboard_rank'',
            opt d ''total_leaderboard_users'',
            dflt d ''is_total_work_personal_record'' (PBool False),
            dflt d ''has_leaderboard_metrics'' (PBool False),
            dflt d ''has_pedaling_metrics'' (PBool False), opt d ''metrics_type'',
            opt d ''fitbit_id'', opt d ''strava_id'', opt d ''title'']))))))"
| "transform_workout_data E v = Inl TypeError"

fun transform_performance_summary_data :: "env \<Rightarrow> pyval \<Rightarrow> pyval \<Rightarrow> exn + row" where
  "transform_performance_summary_data E workout_id (PDict d) =
     bindE (stamp E d ''instant'') (\<lambda>t.
       Inr [sa_state, (''workout_id'', workout_id), opt d ''avg_cadence'',
            opt d ''avg_heart_rate'', opt d ''avg_power'', opt d ''avg_resistance'',
            opt d ''avg_speed'', opt d ''max_cadence'', opt d ''max_heart_rate'',
            opt d ''max_power'', opt d ''max_resistance'', opt d ''max_speed'',
            opt d ''total_work'', opt d ''calories'', opt d ''distance'',
            opt d ''seconds_since_pedaling_start'', (''instant'', t)])"
| "transform_performance_summary_data E workout_id v = Inl AttributeError"

fun performance_metric :: "pyval \<Rightarrow> pyval \<Rightarrow> exn + row" where
  "performance_metric workout_id (PDict d) =
     Inr [sa_state, (''workout_id'', workout_id),
          dflt d ''seconds_since_pedaling_start'' (PInt 0), opt d ''cadence'',
          opt d ''heart_rate'', opt d ''power'', opt d ''resistance'', opt d ''speed'']"
| "performance_metric workout_id v = Inl AttributeError"

definition transform_performance_metrics_data :: "pyval \<Rightarrow> pyval \<Rightarrow> exn + row list" where
  "transform_performance_metrics_data workout_id metrics_data =
     bindE (py_iter metrics_data) (mapE (performance_metric workout_id))"

fun achievement :: "pyval \<Rightarrow> pyval \<Rightarrow> exn + row" where
  "achievement workout_id (PDict d) =
     Inr [sa_state, (''workout_id'', workout_id), (''achievement_id'', dget d ''id'' (PStr [])),
          dflt d ''name'' (PStr []), opt d ''description'', opt d ''slug'', opt d ''image_url'']"
| "achievement workout_id v = Inl AttributeError"

definition transform_achievement_data :: "pyval \<Rightarrow> pyval \<Rightarrow> exn + row list" where
  "transform_achievement_data workout_id achievements_data =
     bindE (py_iter achievements_data) (mapE (achievement workout_id))"

definition extract_workout_components ::
  "env \<Rightarrow> pyval \<Rightarrow> exn + (row option \<times> row option \<times> row)" where
  "extract_workout_components E workout_data =
     bindE (py_get workout_data ''ride'' PNone) (\<lambda>ride_data.
     bindE (if truthy ride_data then
              bindE (transform_ride_data E ride_data) (\<lambda>ride.
              bindE (py_get ride_data ''instructor'' PNone) (\<lambda>instructor_data.
                if truthy instructor_data then
                  bindE (transform_instructor_data instructor_data) (\<lambda>instructor.
                    Inr (Some instructor, Some ride))
                else Inr (None, Some ride)))
            else Inr (None, None)) (\<lambda>(instructor, ride).
     bindE (transform_workout_data E workout_data) (\<lambda>workout.
       Inr (instructor, ride, workout))))"

section \<open>The store and the session\<close>

text \<open>
  A table is the list of its rows, a row the list of its columns. The session sees
  \<open>pending\<close>: the committed rows with the changes of the open transaction applied.
  \<open>commit\<close> makes them the committed rows when the store accepts them, \<open>rollback\<close>
  discards them. Every table is read at most once per workout before the commit, so the
  rows an unflushed \<open>add\<close> holds back from a query are never asked for, and the view is
  what the code observes. \<open>fetched\<close> logs the workout ids the performance graph was
  requested for; it is not part of the session and no rollback touches it. Surrogate keys
  drawn from the store's sequences are left out.
\<close>

record state =
  committed :: db
  pending :: db
  fetched :: "pyval list"

definition getattr :: "row \<Rightarrow> string \<Rightarrow> pyval" where
  "getattr r k = (case map_of r k of None \<Rightarrow> PNone | Some v \<Rightarrow> v)"

fun setattr :: "row \<Rightarrow> string \<Rightarrow> pyval \<Rightarrow> row" where
  "setattr [] k v = [(k, v)]"
| "setattr (p # r) k v = (if fst p = k then (k, v) # r else p # setattr r k v)"

text \<open>\<open>session.query(T).filter(T.col == v).first()\<close>.\<close>

definition query_first :: "db \<Rightarrow> table \<Rightarrow> string \<Rightarrow> pyval \<Rightarrow> row option" where
  "query_first d T col v = find (\<lambda>r. getattr r col = v) (d T)"

text \<open>The object a query returned is changed in place: its row is replaced.\<close>

fun replace_first :: "(row \<Rightarrow> bool) \<Rightarrow> row \<Rightarrow> row list \<Rightarrow> row list" where
  "replace_first P new [] = []"
| "replace_first P new (r # rs) = (if P r then new # rs else r # replace_first P new rs)"

definition write_back :: "table \<Rightarrow> string \<Rightarrow> pyval \<Rightarrow> row \<Rightarrow> state \<Rightarrow> state" where
  "write_back T col v new s =
     s\<lparr>pending := (pending s)(T := replace_first (\<lambda>r. getattr r col = v) new (pending s T))\<rparr>"

text \<open>
  The loop \<open>for key, value in obj.__dict__.items(): if not key.startswith('_') and key
  not in skip: setattr(existing, key, value)\<close>.
\<close>

definition copy_fields :: "string list \<Rightarrow> row \<Rightarrow> row \<Rightarrow> row" where
  "copy_fields skip obj existing =
     fold (\<lambda>(key, v) r. if \<not> startswith key ''_'' \<and> key \<notin> set skip then setattr r key v else r)
       obj existing"

text \<open>
  An insert writes the object's columns and the column defaults of models.py:
  \<open>created_at\<close> defaults to \<open>now()\<close> in every table but \<open>users\<close>, \<open>updated_at\<close> in the
  five tables that have the column. A default fills a column that is unset or None.
\<close>

definition columns :: "row \<Rightarrow> row" where
  "columns obj = filter (\<lambda>(k, v). \<not> startswith k ''_'') obj"

definition with_default :: "string \<Rightarrow> pyval \<Rightarrow> row \<Rightarrow> row" where
  "with_default k v r = (if getattr r k = PNone then setattr r k v else r)"

definition insert_row :: "env \<Rightarrow> table \<Rightarrow> row \<Rightarrow> row" where
  "insert_row E T obj =
     (let r0 = columns obj;
          r1 = (if T \<noteq> Users then with_default ''created_at'' (now E) r0 else r0)
      in if T \<in> {Users, Instructors, Rides, Workouts, Summaries}
         then with_default ''updated_at'' (now E) r1 else r1)"

definition session_add :: "env \<Rightarrow> table \<Rightarrow> row \<Rightarrow> state \<Rightarrow> state" where
  "session_add E T obj s = s\<lparr>pending := (pending s)(T := pending s T @ [insert_row E T obj])\<rparr>"

definition session_add_all :: "env \<Rightarrow> table \<Rightarrow> row list \<Rightarrow> state \<Rightarrow> state" where
  "session_add_all E T objs s = fold (session_add E T) objs s"

text \<open>\<open>session.query(T).filter(T.col == v).delete()\<close>.\<close>

definition delete_where :: "table \<Rightarrow> string \<Rightarrow> pyval \<Rightarrow> state \<Rightarrow> state" where
  "delete_where T col v s =
     s\<lparr>pending := (pending s)(T := filter (\<lambda>r. getattr r col \<noteq> v) (pending s T))\<rparr>"

definition flush :: "env \<Rightarrow> state \<Rightarrow> exn option" where
  "flush E s = (if store_accepts E (pending s) then None else Some IntegrityError)"

definition commit :: "env \<Rightarrow> state \<Rightarrow> exn option \<times> state" where
  "commit E s =
     (if store_accepts E (pending s) then (None, s\<lparr>committed := pending s\<rparr>)
      else (Some IntegrityError, s))"

definition rollback :: "state \<Rightarrow> state" where
  "rollback s = s\<lparr>pending := committed s\<rparr>"

text \<open>
  \<open>get_db_session\<close> (database.py): a new session on the committed rows; a commit when the
  block returns, a rollback and the same exception when it raises.
\<close>

definition get_db_session ::
  "env \<Rightarrow> (state \<Rightarrow> (exn + 'a) \<times> state) \<Rightarrow> state \<Rightarrow> (exn + 'a) \<times> state" where
  "get_db_session E block s =
     (case block (s\<lparr>pending := committed s\<rparr>) of
        (Inr v, s1) \<Rightarrow>
          (case commit E s1 of
             (None, s2) \<Rightarrow> (Inr v, s2)
           | (Some e, s2) \<Rightarrow> (Inl e, rollback s2))
      | (Inl e, s1) \<Rightarrow> (Inl e, rollback s1))"

section \<open>data\_loader.py\<close>

definition sync_user_data :: "env \<Rightarrow> state \<Rightarrow> (exn + row) \<times> state" where
  "sync_user_data E s =
     (case bindE (api_user_info E) (transform_user_data E) of
        Inl e \<Rightarrow> (Inl e, s)
      | Inr user \<Rightarrow>
          (case query_first (pending s) Users ''id'' (getattr user ''id'') of
             Some existing_user \<Rightarrow>
               (let existing = setattr (copy_fields [''id''] user existing_user)
                                 ''updated_at'' (now E);
                    s1 = write_back Users ''id'' (getattr user ''id'') existing s
                in case flush E s1 of Some e \<Rightarrow> (Inl e, s1) | None \<Rightarrow> (Inr existing, s1))
           | None \<Rightarrow>
               (let s1 = session_add E Users user s
                in case flush E s1 of Some e \<Rightarrow> (Inl e, s1) | None \<Rightarrow> (Inr user, s1))))"

definition upsert_instructor :: "env \<Rightarrow> row \<Rightarrow> state \<Rightarrow> row \<times> state" where
  "upsert_instructor E instructor s =
     (case query_first (pending s) Instructors ''id'' (getattr instructor ''id'') of
        Some existing0 \<Rightarrow>
          (let existing = setattr (copy_fields [''id'', ''created_at''] instructor existing0)
                            ''updated_at'' (now E)
           in (existing, write_back Instructors ''id'' (getattr instructor ''id'') existing s))
      | None \<Rightarrow> (instructor, session_add E Instructors instructor s))"

definition upsert_ride :: "env \<Rightarrow> row \<Rightarrow> state \<Rightarrow> row \<times> state" where
  "upsert_ride E ride s =
     (case query_first (pending s) Rides ''id'' (getattr ride ''id'') of
        Some existing0 \<Rightarrow>
          (let existing = setattr (copy_fields [''id'', ''created_at''] ride existing0)
                            ''updated_at'' (now E)
           in (existing, write_back Rides ''id'' (getattr ride ''id'') existing s))
      | None \<Rightarrow> (ride, session_add E Rides ride s))"

definition upsert_workout :: "env \<Rightarrow> row \<Rightarrow> state \<Rightarrow> (row \<times> bool) \<times> state" where
  "upsert_workout E workout s =
     (case query_first (pending s) Workouts ''id'' (getattr workout ''id'') of
        Some existing0 \<Rightarrow>
          (let existing = setattr (copy_fields [''id'', ''created_at''] workout existing0)
                            ''updated_at'' (now E)
           in ((existing, False),
               write_back Workouts ''id'' (getattr workout ''id'') existing s))
      | None \<Rightarrow> ((workout, True), session_add E Workouts workout s))"

text \<open>\<open>summary_data[-1]\<close>.\<close>

fun last_item :: "pyval \<Rightarrow> exn + pyval" where
  "last_item (PList xs) = (if xs = [] then Inl IndexError else Inr (last xs))"
| "last_item (PStr s) = (if s = [] then Inl IndexError else Inr (PStr [last s]))"
| "last_item (PDict d) = Inl (KeyError ''-1'')"
| "last_item v = Inl TypeError"

text \<open>
  \<open>sync_workout_performance_data\<close>, in the three parts of its \<open>try\<close>: the request, the
  summary (lines 149 to 169; it raises before it changes anything) and the metrics (lines
  172 to 186; the delete has happened when the transformer raises). The handler logs and
  returns, so what was changed before the exception stays in the session.
\<close>

definition sync_summary :: "env \<Rightarrow> pyval \<Rightarrow> pyval \<Rightarrow> state \<Rightarrow> exn + state" where
  "sync_summary E workout_id perf_data s =
     bindE (py_get perf_data ''summaries'' (PList [])) (\<lambda>summary_data.
       if truthy summary_data then
         bindE (last_item summary_data) (\<lambda>final_summary.
           if truthy final_summary then
             bindE (transform_performance_summary_data E workout_id final_summary)
               (\<lambda>perf_summary.
                 Inr (case query_first (pending s) Summaries ''workout_id'' workout_id of
                        Some existing_summary \<Rightarrow>
                          write_back Summaries ''workout_id'' workout_id
                            (setattr (copy_fields [''id'', ''created_at''] perf_summary
                                        existing_summary) ''updated_at'' (now E)) s
                      | None \<Rightarrow> session_add E Summaries perf_summary s))
           else Inr s)
       else Inr s)"

definition sync_metrics :: "env \<Rightarrow> pyval \<Rightarrow> pyval \<Rightarrow> state \<Rightarrow> exn option \<times> state" where
  "sync_metrics E workout_id perf_data s =
     (case py_get perf_data ''metrics'' (PList []) of
        Inl e \<Rightarrow> (Some e, s)
      | Inr metrics_data \<Rightarrow>
          if truthy metrics_data then
            (let s1 = delete_where Metrics ''workout_id'' workout_id s
             in case transform_performance_metrics_data workout_id metrics_data of
                  Inl e \<Rightarrow> (Some e, s1)
                | Inr metrics \<Rightarrow> (None, session_add_all E Metrics metrics s1))
          else (None, s))"

definition sync_workout_performance_data :: "env \<Rightarrow> pyval \<Rightarrow> state \<Rightarrow> state" where
  "sync_workout_performance_data E workout_id s =
     (let s0 = s\<lparr>fetched := fetched s @ [workout_id]\<rparr>
      in case api_performance_graph E workout_id of
           Inl e \<Rightarrow> s0
         | Inr perf_data \<Rightarrow>
             (case sync_summary E workout_id perf_data s0 of
                Inl e \<Rightarrow> s0
              | Inr s1 \<Rightarrow> snd (sync_metrics E workout_id perf_data s1)))"

definition sync_workout_achievements :: "env \<Rightarrow> pyval \<Rightarrow> state \<Rightarrow> exn option \<times> state" where
  "sync_workout_achievements E workout_data s =
     (case py_get workout_data ''id'' PNone of
        Inl e \<Rightarrow> (Some e, s)
      | Inr workout_id \<Rightarrow>
          if \<not> truthy workout_id then (None, s)
          else
            (case py_get workout_data ''achievement_templates'' (PList []) of
               Inl e \<Rightarrow> (Some e, s)
             | Inr achievements_data \<Rightarrow>
                 if \<not> truthy achievements_data then (None, s)
                 else
                   (case py_len achievements_data of
                      Inl e \<Rightarrow> (Some e, s)
                    | Inr n \<Rightarrow>
                        (let s1 = delete_where Achievements ''workout_id'' workout_id s
                         in case transform_achievement_data workout_id achievements_data of
                              Inl e \<Rightarrow> (Some e, s1)
                            | Inr achievements \<Rightarrow>
                                (None, session_add_all E Achievements achievements s1)))))"

record stats =
  processed :: nat
  created :: nat
  updated :: nat
  errors :: nat

text \<open>The gate of lines 277 to 279.\<close>

definition wants_performance :: "bool \<Rightarrow> row \<Rightarrow> bool" where
  "wants_performance include_performance workout =
     (include_performance \<and> getattr workout ''status'' = PStr ''COMPLETE'' \<and>
      truthy (getattr workout ''has_pedaling_metrics''))"

text \<open>
  The body of the \<open>try\<close> inside the loop of \<open>sync_workouts\<close> (lines 255 to 283), for one
  payload, in its parts: the upserts in dependency order (lines 258 to 267), the counter
  (lines 268 to 271), then achievements, the gated detail sync and the commit (lines 273
  to 283). \<open>sync_workout_try\<close> gives the exception the body ends with, if any, and the
  counters and the state it leaves.
\<close>

definition upsert_components ::
  "env \<Rightarrow> row option \<times> row option \<times> row \<Rightarrow> state \<Rightarrow> (row \<times> bool) \<times> state" where
  "upsert_components E c s =
     (case c of (instructor, ride, workout) \<Rightarrow>
        (let s1 = (case instructor of None \<Rightarrow> s | Some i \<Rightarrow> snd (upsert_instructor E i s));
             s2 = (case ride of None \<Rightarrow> s1 | Some r \<Rightarrow> snd (upsert_ride E r s1))
         in upsert_workout E workout s2))"

definition count_workout :: "bool \<Rightarrow> stats \<Rightarrow> stats" where
  "count_workout is_new st =
     (if is_new then st\<lparr>created := created st + 1\<rparr> else st\<lparr>updated := updated st + 1\<rparr>)"

definition finish_workout ::
  "env \<Rightarrow> bool \<Rightarrow> pyval \<Rightarrow> row \<Rightarrow> state \<Rightarrow> exn option \<times> state" where
  "finish_workout E include_performance workout_data workout s =
     (case sync_workout_achievements E workout_data s of
        (Some e, s1) \<Rightarrow> (Some e, s1)
      | (None, s1) \<Rightarrow>
          commit E (if wants_performance include_performance workout
                    then sync_workout_performance_data E (getattr workout ''id'') s1
                    else s1))"

definition sync_workout_try ::
  "env \<Rightarrow> bool \<Rightarrow> pyval \<Rightarrow> stats \<times> state \<Rightarrow> exn option \<times> stats \<times> state" where
  "sync_workout_try E include_performance workout_data c =
     (case c of (st, s) \<Rightarrow>
        (case extract_workout_components E workout_data of
           Inl e \<Rightarrow> (Some e, st, s)
         | Inr components \<Rightarrow>
             (case upsert_components E components s of
                ((workout, is_new), s1) \<Rightarrow>
                  (case finish_workout E include_performance workout_data workout s1 of
                     (x, s2) \<Rightarrow> (x, count_workout is_new st, s2)))))"

text \<open>
  The loop. The handler of a payload's exception first evaluates
  \<open>workout_data.get("id")\<close> for its log line: on a payload that is not a dict that call
  raises in turn, and the exception leaves the loop for the outer handler.
\<close>

fun sync_loop ::
  "env \<Rightarrow> bool \<Rightarrow> pyval list \<Rightarrow> stats \<times> state \<Rightarrow> exn option \<times> stats \<times> state" where
  "sync_loop E include_performance [] c = (None, c)"
| "sync_loop E include_performance (workout_data # rest) c =
     (case sync_workout_try E include_performance workout_data c of
        (None, c1) \<Rightarrow> sync_loop E include_performance rest c1
      | (Some e, st1, s1) \<Rightarrow>
          (case py_get workout_data ''id'' PNone of
             Inl e2 \<Rightarrow> (Some e2, st1, s1)
           | Inr i \<Rightarrow>
               sync_loop E include_performance rest
                 (st1\<lparr>errors := errors st1 + 1\<rparr>, rollback s1)))"

text \<open>The outer \<open>try\<close> of \<open>sync_workouts\<close> (lines 244 to 289).\<close>

definition sync_workouts_try ::
  "env \<Rightarrow> int \<Rightarrow> bool \<Rightarrow> state \<Rightarrow> exn option \<times> stats \<times> state" where
  "sync_workouts_try E limit include_performance s =
     (let stats0 = \<lparr>processed = 0, created = 0, updated = 0, errors = 0\<rparr>
      in case api_user_workouts E limit of
           Inl e \<Rightarrow> (Some e, stats0, s)
         | Inr workouts_data \<Rightarrow>
             (case py_get workouts_data ''data'' (PList []) of
                Inl e \<Rightarrow> (Some e, stats0, s)
              | Inr workouts \<Rightarrow>
                  (case py_len workouts of
                     Inl e \<Rightarrow> (Some e, stats0, s)
                   | Inr n \<Rightarrow>
                       (case py_iter workouts of
                          Inl e \<Rightarrow> (Some e, stats0\<lparr>processed := n\<rparr>, s)
                        | Inr items \<Rightarrow>
                            sync_loop E include_performance items
                              (stats0\<lparr>processed := n\<rparr>, s)))))"

definition sync_workouts :: "env \<Rightarrow> pyval \<Rightarrow> int \<Rightarrow> bool \<Rightarrow> state \<Rightarrow> stats \<times> state" where
  "sync_workouts E user_id limit include_performance s =
     (case sync_workouts_try E limit include_performance s of
        (None, st, s1) \<Rightarrow> (st, s1)
      | (Some e, st, s1) \<Rightarrow> (st\<lparr>errors := errors st + 1\<rparr>, rollback s1))"

text \<open>\<open>create_sync_log\<close>: the \<open>SyncLog(...)\<close> it builds, and the \<open>session.add\<close>.\<close>

definition new_sync_log ::
  "env \<Rightarrow> pyval \<Rightarrow> string \<Rightarrow> string \<Rightarrow> stats \<Rightarrow> pyval \<Rightarrow> row" where
  "new_sync_log E user_id sync_type status st error_message =
     [sa_state, (''user_id'', user_id), (''sync_type'', PStr sync_type),
      (''status'', PStr status), (''started_at'', now E), (''completed_at'', now E),
      (''workouts_processed'', PInt (int (processed st))),
      (''workouts_created'', PInt (int (created st))),
      (''workouts_updated'', PInt (int (updated st))),
      (''errors_count'', PInt (int (errors st))),
      (''error_message'', error_message)]"

definition create_sync_log ::
  "env \<Rightarrow> pyval \<Rightarrow> string \<Rightarrow> string \<Rightarrow> stats \<Rightarrow> pyval \<Rightarrow> state \<Rightarrow> state" where
  "create_sync_log E user_id sync_type status st error_message s =
     session_add E SyncLogs (new_sync_log E user_id sync_type status st error_message) s"

text \<open>Lines 380 to 382 of \<open>full_sync\<close>.\<close>

definition sync_status :: "stats \<Rightarrow> string" where
  "sync_status st =
     (if errors st > 0 then (if created st + updated st > 0 then ''partial'' else ''error'')
      else ''success'')"

record result =
  res_status :: string
  res_user_id :: pyval
  res_stats :: stats

text \<open>The \<open>try\<close> of \<open>full_sync\<close> with its handler (rollback, then the same exception).\<close>

definition full_sync_block ::
  "env \<Rightarrow> pyval \<Rightarrow> int \<Rightarrow> bool \<Rightarrow> state \<Rightarrow> (exn + result) \<times> state" where
  "full_sync_block E user_id max_workouts include_performance s =
     (case sync_user_data E s of
        (Inl e, s1) \<Rightarrow> (Inl e, rollback s1)
      | (Inr user, s1) \<Rightarrow>
          (let target_user_id = (if truthy user_id then user_id else getattr user ''id'');
               st = fst (sync_workouts E target_user_id max_workouts include_performance s1);
               s2 = snd (sync_workouts E target_user_id max_workouts include_performance s1);
               s3 = create_sync_log E target_user_id ''full'' (sync_status st) st PNone s2
           in case commit E s3 of
                (Some e, s4) \<Rightarrow> (Inl e, rollback s4)
              | (None, s4) \<Rightarrow>
                  (Inr \<lparr>res_status = sync_status st, res_user_id = target_user_id,
                        res_stats = st\<rparr>, s4)))"

definition full_sync ::
  "env \<Rightarrow> pyval \<Rightarrow> int \<Rightarrow> bool \<Rightarrow> state \<Rightarrow> (exn + result) \<times> state" where
  "full_sync E user_id max_workouts include_performance =
     get_db_session E (full_sync_block E user_id max_workouts include_performance)"

section \<open>Concrete runs\<close>

text \<open>
  Collaborators, stores and payloads for the concrete runs below: a remote source with
  the user \<open>u1\<close> and no workouts, a conversion that accepts integers only, a date parser
  and a float parser that reject every string, and a store without constraints.
\<close>

definition env0 :: env where
  "env0 =
     \<lparr>api_user_info = Inr (PDict [(''id'', PStr ''u1''), (''created_at'', PInt 200)]),
      api_user_workouts = (\<lambda>limit. Inr (PDict [(''data'', PList [])])),
      api_performance_graph = (\<lambda>w. Inl PelotonAPIError),
      lib_fromtimestamp = (\<lambda>v. case v of PInt n \<Rightarrow> Inr n | _ \<Rightarrow> Inl OverflowError),
      lib_parse_date = (\<lambda>s. Inl ValueError),
      lib_float = (\<lambda>s. None),
      clock = 1000,
      store_accepts = (\<lambda>d. True)\<rparr>"

definition state0 :: state where
  "state0 = \<lparr>committed = (\<lambda>T. []), pending = (\<lambda>T. []), fetched = []\<rparr>"

definition payload_nested :: pyval where
  "payload_nested =
     PDict [(''id'', PStr ''w1''),
            (''ride'', PDict [(''id'', PStr ''r1''),
                              (''instructor'', PDict [(''id'', PStr ''i1'')])])]"

text \<open>A store whose session holds one achievement of workout \<open>w1\<close>.\<close>

definition state_badges :: state where
  "state_badges = state0\<lparr>pending := (\<lambda>T. if T = Achievements
       then [[(''workout_id'', PStr ''w1''), (''achievement_id'', PStr ''a1'')]] else [])\<rparr>"

text \<open>
  A remote source whose performance graph is a given series of samples, and the session
  after a first sync of workout \<open>w1\<close> with a series of two samples.
\<close>

definition sample :: "int \<Rightarrow> pyval" where
  "sample t = PDict [(''seconds_since_pedaling_start'', PInt t), (''cadence'', PInt 80)]"

definition env_series :: "pyval list \<Rightarrow> env" where
  "env_series ms = env0\<lparr>api_performance_graph := (\<lambda>w. Inr (PDict [(''metrics'', PList ms)]))\<rparr>"

definition state_two_samples :: state where
  "state_two_samples =
     sync_workout_performance_data (env_series [sample 0, sample 5]) (PStr ''w1'') state0"

text \<open>
  The attribute names of a Workout built by \<open>transform_workout_data\<close>.
\<close>

definition workout_keys :: "string list" where
  "workout_keys = [''_sa_instance_state'', ''id'', ''user_id'', ''ride_id'', ''name'', ''status'',
     ''fitness_discipline'', ''workout_type'', ''device_type'', ''device_type_display_name'',
     ''platform'', ''start_time'', ''end_time'', ''created_at_peloton'',
     ''device_time_created_at'', ''timezone'', ''total_work'', ''leaderboard_rank'',
     ''total_leaderboard_users'', ''is_total_work_personal_record'',
     ''has_leaderboard_metrics'', ''has_pedaling_metrics'', ''metrics_type'', ''fitbit_id'',
     ''strava_id'', ''title'']"

text \<open>
  A completed workout of user \<open>u1\<close>, with a given pedaling flag and achievement list.
\<close>

definition payload_complete :: "pyval \<Rightarrow> pyval \<Rightarrow> pyval" where
  "payload_complete pedaling badges =
     PDict [(''id'', PStr ''w1''), (''user_id'', PStr ''u1''), (''status'', PStr ''COMPLETE''),
            (''has_pedaling_metrics'', pedaling), (''achievement_templates'', badges)]"

definition stats0 :: stats where
  "stats0 = \<lparr>processed = 0, created = 0, updated = 0, errors = 0\<rparr>"

text \<open>
  Both views of the ledger table hold the rows \<open>L\<close>: what every step of \<open>sync_workouts\<close> keeps.
\<close>

definition ledger_is :: "row list \<Rightarrow> state \<Rightarrow> bool" where
  "ledger_is L s \<longleftrightarrow> pending s SyncLogs = L \<and> committed s SyncLogs = L"

text \<open>
  A store that holds the user \<open>u1\<close>, created at instant 100.
\<close>

definition state_u1 :: state where
  "state_u1 =
     \<lparr>committed = (\<lambda>T. if T = Users
          then [[(''id'', PStr ''u1''), (''username'', PStr ''ann''),
                 (''created_at'', PDatetime (Datetime 100 (Some UTC))),
                 (''updated_at'', PDatetime (Datetime 100 (Some UTC)))]]
          else []),
      pending = (\<lambda>T. if T = Users
          then [[(''id'', PStr ''u1''), (''username'', PStr ''ann''),
                 (''created_at'', PDatetime (Datetime 100 (Some UTC))),
                 (''updated_at'', PDatetime (Datetime 100 (Some UTC)))]]
          else []),
      fetched = []\<rparr>"

text \<open>
  A remote source whose workout listing fails, and one whose user request fails.
\<close>

definition env_unreachable :: env where
  "env_unreachable = env0\<lparr>api_user_workouts := (\<lambda>limit. Inl PelotonAPIError)\<rparr>"

definition env_no_user :: env where
  "env_no_user = env0\<lparr>api_user_info := Inl PelotonAPIError\<rparr>"

text \<open>
  A remote source whose user payload has no \<open>created_at\<close>.
\<close>

definition env_user_undated :: env where
  "env_user_undated = env0\<lparr>api_user_info := Inr (PDict [(''id'', PStr ''u1'')])\<rparr>"

text \<open>
  A remote source whose listing holds one payload, without an id.
\<close>

definition env_first_fails :: env where
  "env_first_fails =
     env0\<lparr>api_user_workouts := (\<lambda>limit. Inr (PDict [(''data'', PList [PDict []])]))\<rparr>"

text \<open>
  A workout whose achievement list holds a string, and a batch of a good and that workout.
\<close>

definition payload_bad_badges :: pyval where
  "payload_bad_badges =
     PDict [(''id'', PStr ''w2''), (''user_id'', PStr ''u1''),
            (''achievement_templates'', PList [PStr ''x''])]"

definition env_batch :: env where
  "env_batch =
     env0\<lparr>api_user_workouts := (\<lambda>limit. Inr (PDict [(''data'',
        PList [payload_complete (PBool False) (PList []), payload_bad_badges])]))\<rparr>"

text \<open>
  The not-null constraint of \<open>workouts.start_time\<close> (models.py), and a remote source
  whose only workout has no \<open>start_time\<close>, on a store that enforces the constraint.
\<close>

definition start_time_not_null :: "db \<Rightarrow> bool" where
  "start_time_not_null d = list_all (\<lambda>r. getattr r ''start_time'' \<noteq> PNone) (d Workouts)"

definition env_undated_workout :: env where
  "env_undated_workout =
     env0\<lparr>api_user_workouts := (\<lambda>limit. Inr (PDict [(''data'',
              PList [PDict [(''id'', PStr ''w1''), (''user_id'', PStr ''u1'')]])])),
          store_accepts := start_time_not_null\<rparr>"

section \<open>Basic facts\<close>

lemma bindE_simps [simp]: "bindE (Inl e) f = Inl e" "bindE (Inr x) f = f x"
  by (simp_all add: bindE_def)

lemma bindE_Inr_iff: "bindE m f = Inr y \<longleftrightarrow> (\<exists>x. m = Inr x \<and> f x = Inr y)"
  by (cases m) simp_all

lemma bindE_always_Inl: "(\<And>x. \<exists>e. f x = Inl e) \<Longrightarrow> \<exists>e. bindE m f = Inl e"
  by (cases m) simp_all

section \<open>The timestamp parser\<close>

lemma datetime_fromtimestamp_aware:
  "datetime_fromtimestamp E x = Inr d \<Longrightarrow> tzinfo d = Some UTC"
  by (auto simp: datetime_fromtimestamp_def split: sum.splits)

lemma parse_timestamp_try_aware:
  "parse_timestamp_try E v = Inr (Some d) \<Longrightarrow> tzinfo d \<noteq> None"
  by (cases v)
     (auto simp: bindE_Inr_iff split: sum.splits option.splits if_splits
           dest: datetime_fromtimestamp_aware)

lemma parse_timestamp_Inr: "\<exists>r. parse_timestamp E v = Inr r"
  by (simp add: parse_timestamp_def split: sum.splits)

text \<open>
  C9. \<open>_parse_timestamp\<close> is total: for every input value, of any type, and whatever the
  library functions return or raise, it returns None or a datetime that carries a time
  zone; it never raises.
\<close>

theorem parse_timestamp_total:
  "\<exists>r. parse_timestamp E timestamp = Inr r \<and>
       (case r of None \<Rightarrow> True | Some d \<Rightarrow> tzinfo d \<noteq> None)"
  by (auto simp: parse_timestamp_def split: sum.splits option.splits
           dest: parse_timestamp_try_aware)

theorem parse_timestamp_total_witness:
  "parse_timestamp env0 (PInt 5) = Inr (Some (Datetime 5 (Some UTC))) \<and>
   parse_timestamp env0 (PStr ''soon'') = Inr None \<and>
   parse_timestamp env0 (PFloat NaN) = Inr None \<and>
   (\<exists>r. parse_timestamp env0 (PList []) = Inr r \<and>
        (case r of None \<Rightarrow> True | Some d \<Rightarrow> tzinfo d \<noteq> None))"
  using parse_timestamp_total [of env0 "PList []"]
  by (simp add: parse_timestamp_def env0_def datetime_fromtimestamp_def)

section \<open>Component extraction\<close>

lemma transform_workout_data_no_id:
  "subscript wd ''id'' = Inl e \<Longrightarrow> \<exists>e'. transform_workout_data E wd = Inl e'"
  by (cases wd) (auto split: option.splits)

lemma extract_raises_without_id:
  assumes "subscript wd ''id'' = Inl e"
  shows "\<exists>e'. extract_workout_components E wd = Inl e'"
proof -
  obtain e' where t: "transform_workout_data E wd = Inl e'"
    using transform_workout_data_no_id[OF assms] by blast
  show ?thesis
    unfolding extract_workout_components_def
    by (intro bindE_always_Inl) (simp add: t split_def)
qed

lemma extract_returns:
  assumes "extract_workout_components E wd = Inr (i, r, w)"
  shows "(i \<noteq> None \<longrightarrow> r \<noteq> None) \<and> transform_workout_data E wd = Inr w \<and>
      (\<forall>x. i = Some x \<longrightarrow>
         (\<exists>rd ins. py_get wd ''ride'' PNone = Inr rd \<and> truthy rd \<and>
            py_get rd ''instructor'' PNone = Inr ins \<and> truthy ins \<and>
            transform_instructor_data ins = Inr x))"
  using assms
  by (auto simp: extract_workout_components_def bindE_Inr_iff split: if_splits)

text \<open>
  C8. For every payload, when \<open>extract_workout_components\<close> returns (instructor, ride,
  workout): an instructor is present only if a ride is, the instructor is the transform
  of the instructor object embedded in the payload's ride object, and the workout is the
  transform of the payload. When the payload has no workout id (\<open>workout_data["id"]\<close>
  raises), the extraction raises.
\<close>

theorem extract_workout_components_nesting:
  "(extract_workout_components E wd = Inr (i, r, w) \<longrightarrow>
      (i \<noteq> None \<longrightarrow> r \<noteq> None) \<and> transform_workout_data E wd = Inr w \<and>
      (\<forall>x. i = Some x \<longrightarrow>
         (\<exists>rd ins. py_get wd ''ride'' PNone = Inr rd \<and> truthy rd \<and>
            py_get rd ''instructor'' PNone = Inr ins \<and> truthy ins \<and>
            transform_instructor_data ins = Inr x))) \<and>
   (\<forall>e. subscript wd ''id'' = Inl e \<longrightarrow> (\<exists>e'. extract_workout_components E wd = Inl e'))"
  using extract_returns[of E wd i r w] extract_raises_without_id[of wd _ E] by blast

lemma stamp_Inr: "\<exists>v. stamp E d k = Inr v"
  using parse_timestamp_Inr[of E "dget d k PNone"] by (auto simp: stamp_def)

lemma extract_payload_nested: "\<exists>i r w. extract_workout_components env0 payload_nested = Inr (Some i, r, w)"
  by (simp add: extract_workout_components_def payload_nested_def dget_def stamp_def parse_timestamp_def workout_ride_id_def)

theorem extract_workout_components_nesting_witness:
  "\<exists>i r w. extract_workout_components env0 payload_nested = Inr (Some i, Some r, w) \<and>
     transform_workout_data env0 payload_nested = Inr w \<and>
     transform_instructor_data (PDict [(''id'', PStr ''i1'')]) = Inr i \<and>
     (\<exists>e. extract_workout_components env0 (PDict []) = Inl e)"
proof -
  obtain i r w where h: "extract_workout_components env0 payload_nested = Inr (Some i, r, w)"
    using extract_payload_nested by blast
  have n: "subscript (PDict []) ''id'' = Inl (KeyError ''id'')" by simp
  from extract_workout_components_nesting [of env0 payload_nested "Some i" r w] h
  have a: "r \<noteq> None" "transform_workout_data env0 payload_nested = Inr w"
    "\<exists>rd ins. py_get payload_nested ''ride'' PNone = Inr rd \<and> truthy rd \<and>
            py_get rd ''instructor'' PNone = Inr ins \<and> truthy ins \<and>
            transform_instructor_data ins = Inr i"
    by blast+
  from a(3) have b: "transform_instructor_data (PDict [(''id'', PStr ''i1'')]) = Inr i"
    by (simp add: payload_nested_def dget_def)
  from extract_workout_components_nesting [of env0 "PDict []"] n
  have c: "\<exists>e. extract_workout_components env0 (PDict []) = Inl e" by blast
  from a(1) obtain r' where "r = Some r'" by auto
  with h a(2) b c show ?thesis by blast
qed

section \<open>Achievements\<close>

text \<open>
  C10. For every workout payload whose \<open>id\<close> is absent or falsy, or whose
  \<open>achievement_templates\<close> is absent or empty (falsy), \<open>sync_workout_achievements\<close>
  returns without raising and leaves the session as it was: nothing is deleted and
  nothing is inserted.
\<close>

theorem sync_workout_achievements_noop:
  "\<not> truthy (dget d ''id'' PNone) \<or> \<not> truthy (dget d ''achievement_templates'' (PList []))
   \<Longrightarrow> sync_workout_achievements E (PDict d) s = (None, s)"
  by (auto simp: sync_workout_achievements_def)

theorem sync_workout_achievements_noop_witness:
  "sync_workout_achievements env0
     (PDict [(''id'', PStr ''w1''), (''achievement_templates'', PList [])]) state_badges
   = (None, state_badges) \<and>
   sync_workout_achievements env0
     (PDict [(''achievement_templates'', PList [PDict [(''id'', PStr ''a2'')]])]) state_badges
   = (None, state_badges) \<and>
   length (pending state_badges Achievements) = 1"
proof -
  have a: "\<not> truthy (dget [(''id'', PStr ''w1''), (''achievement_templates'', PList [])] ''id'' PNone) \<or>
        \<not> truthy (dget [(''id'', PStr ''w1''), (''achievement_templates'', PList [])]
                     ''achievement_templates'' (PList []))"
    by (simp add: dget_def)
  have b: "\<not> truthy (dget [(''achievement_templates'', PList [PDict [(''id'', PStr ''a2'')]])] ''id'' PNone) \<or>
        \<not> truthy (dget [(''achievement_templates'', PList [PDict [(''id'', PStr ''a2'')]])]
                     ''achievement_templates'' (PList []))"
    by (simp add: dget_def)
  show ?thesis
    using sync_workout_achievements_noop [OF a, of env0 state_badges]
      sync_workout_achievements_noop [OF b, of env0 state_badges]
    by (simp add: state_badges_def state0_def)
qed

section \<open>Rows, tables and sessions\<close>

lemma map_of_setattr: "map_of (setattr r k v) = (map_of r)(k \<mapsto> v)"
  by (induction r) (auto simp: fun_eq_iff)

lemma getattr_setattr: "getattr (setattr r k v) k' = (if k' = k then v else getattr r k')"
  by (simp add: getattr_def map_of_setattr)

lemma map_of_columns:
  "map_of (columns r) k = (if startswith k ''_'' then None else map_of r k)"
  by (induction r) (auto simp: columns_def)

lemma getattr_columns:
  "getattr (columns r) k = (if startswith k ''_'' then PNone else getattr r k)"
  by (simp add: getattr_def map_of_columns)

lemma getattr_with_default:
  "k' \<noteq> k \<Longrightarrow> getattr (with_default k v r) k' = getattr r k'"
  by (simp add: with_default_def getattr_setattr)

lemma getattr_insert_row:
  "k \<noteq> ''created_at'' \<Longrightarrow> k \<noteq> ''updated_at'' \<Longrightarrow>
   getattr (insert_row E T obj) k = getattr (columns obj) k"
  by (simp add: insert_row_def Let_def getattr_with_default)

lemma pending_session_add_all:
  "pending (session_add_all E T objs s) =
     (pending s)(T := pending s T @ map (insert_row E T) objs)"
  unfolding session_add_all_def
  by (induction objs arbitrary: s) (auto simp: session_add_def fun_eq_iff)

lemma session_add_all_frame:
  "committed (session_add_all E T objs s) = committed s"
  "fetched (session_add_all E T objs s) = fetched s"
  unfolding session_add_all_def
  by (induction objs arbitrary: s) (auto simp: session_add_def)

lemma mapE_Inr_length: "mapE f xs = Inr ys \<Longrightarrow> length ys = length xs"
  by (induction xs arbitrary: ys) (auto simp: bindE_Inr_iff)

lemma mapE_Inr_set: "mapE f xs = Inr ys \<Longrightarrow> y \<in> set ys \<Longrightarrow> \<exists>x\<in>set xs. f x = Inr y"
  by (induction xs arbitrary: ys) (auto simp: bindE_Inr_iff)

lemma mapE_total: "(\<And>x. x \<in> set xs \<Longrightarrow> \<exists>y. f x = Inr y) \<Longrightarrow> \<exists>ys. mapE f xs = Inr ys"
  by (induction xs) (fastforce simp: bindE_Inr_iff)+

lemma performance_metric_workout_id:
  "getattr (insert_row E Metrics r) ''workout_id'' = wid" if "performance_metric wid x = Inr r"
proof (cases x)
  case (PDict d)
  with that have r: "r = [sa_state, (''workout_id'', wid),
          dflt d ''seconds_since_pedaling_start'' (PInt 0), opt d ''cadence'',
          opt d ''heart_rate'', opt d ''power'', opt d ''resistance'', opt d ''speed'']"
    by simp
  have "getattr (insert_row E Metrics r) ''workout_id'' = getattr r ''workout_id''"
    by (simp add: getattr_insert_row getattr_columns startswith_def)
  also have "\<dots> = wid" by (simp add: r getattr_def sa_state_def)
  finally show ?thesis .
qed (use that in simp_all)

lemma transform_summary_dict: "\<exists>r. transform_performance_summary_data E wid (PDict d) = Inr r"
  using stamp_Inr[of E d "''instant''"] by auto

lemma sync_summary_metrics:
  "sync_summary E wid perf s = Inr s1 \<Longrightarrow>
     pending s1 Metrics = pending s Metrics \<and> fetched s1 = fetched s \<and> committed s1 = committed s"
  by (auto simp: sync_summary_def bindE_Inr_iff write_back_def session_add_def
           split: if_splits option.splits)

lemma sync_summary_list_of_dicts:
  assumes "dget p ''summaries'' (PList []) = PList ss" "\<forall>x\<in>set ss. \<exists>d. x = PDict d"
  shows "\<exists>s1. sync_summary E wid (PDict p) s = Inr s1"
proof (cases "ss = []")
  case True
  with assms show ?thesis by (simp add: sync_summary_def)
next
  case False
  then have "last ss \<in> set ss" by simp
  with assms(2) obtain d where d: "last ss = PDict d" by blast
  obtain r where r: "transform_performance_summary_data E wid (PDict d) = Inr r"
    using transform_summary_dict by blast
  show ?thesis using assms(1) False d r by (simp add: sync_summary_def)
qed

lemma getattr_Cons: "getattr ((a, b) # ps) k = (if k = a then b else getattr ps k)"
  by (simp add: getattr_def)

lemma getattr_absent: "k \<notin> fst ` set r \<Longrightarrow> getattr r k = PNone"
  by (force simp: getattr_def split: option.splits dest: map_of_SomeD)

lemma map_of_fold_copy:
  "distinct (map fst obj) \<Longrightarrow>
   getattr (copy_fields skip obj ex) k =
     (if k \<in> fst ` set obj \<and> \<not> startswith k ''_'' \<and> k \<notin> set skip
      then getattr obj k else getattr ex k)"
proof (induction obj arbitrary: ex)
  case Nil
  then show ?case by (simp add: copy_fields_def)
next
  case (Cons p ps)
  obtain a b where p: "p = (a, b)" by (cases p)
  from Cons.prems have d: "distinct (map fst ps)" and n: "a \<notin> fst ` set ps"
    by (auto simp: p)
  let ?ex = "if \<not> startswith a ''_'' \<and> a \<notin> set skip then setattr ex a b else ex"
  have step: "copy_fields skip ((a, b) # ps) ex = copy_fields skip ps ?ex"
    by (simp add: copy_fields_def)
  have ih: "getattr (copy_fields skip ps ?ex) k =
     (if k \<in> fst ` set ps \<and> \<not> startswith k ''_'' \<and> k \<notin> set skip
      then getattr ps k else getattr ?ex k)"
    by (rule Cons.IH[OF d])
  show ?case
    unfolding p step ih using n
    by (auto simp: getattr_Cons getattr_setattr getattr_absent)
qed

lemma find_Some_P: "find P xs = Some x \<Longrightarrow> P x"
  by (induction xs) (auto split: if_splits)

lemma upsert_workout_attr:
  assumes "distinct (map fst w)" "k \<in> fst ` set w" "\<not> startswith k ''_''"
    "k \<noteq> ''created_at''" "k \<noteq> ''updated_at''"
  shows "getattr (fst (fst (upsert_workout E w s))) k = getattr w k"
proof (cases "query_first (pending s) Workouts ''id'' (getattr w ''id'')")
  case None
  then show ?thesis by (simp add: upsert_workout_def)
next
  case (Some ex)
  then have i: "getattr ex ''id'' = getattr w ''id''"
    by (auto simp: query_first_def dest: find_Some_P)
  show ?thesis
    using Some assms i
    by (simp add: upsert_workout_def Let_def getattr_setattr map_of_fold_copy)
qed

lemma upsert_fetched:
  "fetched (snd (upsert_instructor E i s)) = fetched s"
  "fetched (snd (upsert_ride E r s)) = fetched s"
  "fetched (snd (upsert_workout E w s)) = fetched s"
  by (auto simp: upsert_instructor_def upsert_ride_def upsert_workout_def Let_def
        write_back_def session_add_def split: option.splits)

lemma delete_where_frame:
  "fetched (delete_where T c v s) = fetched s" "committed (delete_where T c v s) = committed s"
  by (simp_all add: delete_where_def)

lemma achievements_fetched:
  "fetched (snd (sync_workout_achievements E wd s)) = fetched s"
  by (auto simp: sync_workout_achievements_def Let_def session_add_all_frame delete_where_frame
        split: sum.splits)

lemma achievements_raise_indep:
  "fst (sync_workout_achievements E wd s) = fst (sync_workout_achievements E wd s')"
  by (auto simp: sync_workout_achievements_def Let_def split: sum.splits)

lemma commit_fetched: "fetched (snd (commit E s)) = fetched s"
  by (simp add: commit_def)

lemma sync_metrics_fetched: "fetched (snd (sync_metrics E wid p s)) = fetched s"
  by (auto simp: sync_metrics_def Let_def session_add_all_frame delete_where_frame
        split: sum.splits)

lemma performance_fetched:
  "fetched (sync_workout_performance_data E wid s) = fetched s @ [wid]"
  by (auto simp: sync_workout_performance_data_def Let_def sync_metrics_fetched
        dest: sync_summary_metrics split: sum.splits)

section \<open>Performance metrics\<close>

text \<open>
  C4, as amended. When the performance graph is fetched, its summaries are a list of
  objects and its metrics are a list of M objects: if M > 0, exactly M metric rows of the
  workout are in the session afterwards and the rows of every other workout are as
  before (all prior rows of the workout are deleted first); if M = 0, the metric rows
  are left as they were.
\<close>

theorem metrics_full_replace:
  assumes "api_performance_graph E wid = Inr (PDict p)"
    and "dget p ''summaries'' (PList []) = PList ss" "\<forall>x\<in>set ss. \<exists>d. x = PDict d"
    and "dget p ''metrics'' (PList []) = PList ms" "\<forall>x\<in>set ms. \<exists>d. x = PDict d"
  shows "(ms \<noteq> [] \<longrightarrow>
           length (filter (\<lambda>r. getattr r ''workout_id'' = wid)
                     (pending (sync_workout_performance_data E wid s) Metrics)) = length ms \<and>
           filter (\<lambda>r. getattr r ''workout_id'' \<noteq> wid)
             (pending (sync_workout_performance_data E wid s) Metrics) =
           filter (\<lambda>r. getattr r ''workout_id'' \<noteq> wid) (pending s Metrics)) \<and>
         (ms = [] \<longrightarrow> pending (sync_workout_performance_data E wid s) Metrics = pending s Metrics)"
proof -
  let ?s0 = "s\<lparr>fetched := fetched s @ [wid]\<rparr>"
  obtain s1 where s1: "sync_summary E wid (PDict p) ?s0 = Inr s1"
    using sync_summary_list_of_dicts[OF assms(2,3)] by blast
  have m1: "pending s1 Metrics = pending s Metrics"
    using sync_summary_metrics[OF s1] by simp
  have run: "sync_workout_performance_data E wid s = snd (sync_metrics E wid (PDict p) s1)"
    by (simp add: sync_workout_performance_data_def Let_def assms(1) s1)
  have "\<And>x. x \<in> set ms \<Longrightarrow> \<exists>y. performance_metric wid x = Inr y"
    using assms(5) by auto
  then obtain rows where rows: "mapE (performance_metric wid) ms = Inr rows"
    using mapE_total by blast
  have all: "\<forall>r\<in>set rows. getattr (insert_row E Metrics r) ''workout_id'' = wid"
    using mapE_Inr_set[OF rows] performance_metric_workout_id by blast
  have len: "length rows = length ms" using mapE_Inr_length[OF rows] .
  show ?thesis
  proof (cases "ms = []")
    case True
    then show ?thesis using assms(4) m1 by (simp add: run sync_metrics_def)
  next
    case False
    have p: "pending (sync_workout_performance_data E wid s) Metrics =
          filter (\<lambda>r. getattr r ''workout_id'' \<noteq> wid) (pending s Metrics) @
          map (insert_row E Metrics) rows"
      using False assms(4) rows m1
      by (simp add: run sync_metrics_def transform_performance_metrics_data_def Let_def
            pending_session_add_all delete_where_def)
    have f1: "filter (\<lambda>r. getattr r ''workout_id'' = wid) (map (insert_row E Metrics) rows)
              = map (insert_row E Metrics) rows"
      using all by (simp add: filter_id_conv)
    have f2: "filter (\<lambda>r. getattr r ''workout_id'' \<noteq> wid) (map (insert_row E Metrics) rows) = []"
      using all by (simp add: filter_empty_conv)
    show ?thesis using False by (simp add: p f1 f2 len)
  qed
qed

lemma two_samples_rows:
  "map (\<lambda>r. getattr r ''workout_id'') (pending state_two_samples Metrics) =
     [PStr ''w1'', PStr ''w1'']"
  by (simp add: state_two_samples_def sync_workout_performance_data_def env_series_def env0_def
        state0_def sync_summary_def sync_metrics_def dget_def Let_def delete_where_def
        transform_performance_metrics_data_def sample_def session_add_all_def session_add_def
        insert_row_def columns_def with_default_def getattr_def startswith_def sa_state_def
        opt_def dflt_def now_def)

theorem metrics_full_replace_witness:
  "length (filter (\<lambda>r. getattr r ''workout_id'' = PStr ''w1'')
     (pending state_two_samples Metrics)) = 2 \<and>
   length (filter (\<lambda>r. getattr r ''workout_id'' = PStr ''w1'')
     (pending (sync_workout_performance_data (env_series [sample 7]) (PStr ''w1'')
        state_two_samples) Metrics)) = 1"
proof -
  have a: "map (\<lambda>r. getattr r ''workout_id'') (pending state_two_samples Metrics) =
        [PStr ''w1'', PStr ''w1'']"
    by (rule two_samples_rows)
  have c: "length (filter (\<lambda>r. getattr r ''workout_id'' = PStr ''w1'')
     (pending state_two_samples Metrics)) = 2"
    using a by (auto simp: map_eq_Cons_conv)
  have h1: "api_performance_graph (env_series [sample 7]) (PStr ''w1'') =
        Inr (PDict [(''metrics'', PList [sample 7])])"
    by (simp add: env_series_def)
  have h2: "dget [(''metrics'', PList [sample 7])] ''summaries'' (PList []) = PList []"
    by (simp add: dget_def)
  have h3: "\<forall>x\<in>set ([]::pyval list). \<exists>d. x = PDict d" by simp
  have h4: "dget [(''metrics'', PList [sample 7])] ''metrics'' (PList []) = PList [sample 7]"
    by (simp add: dget_def)
  have h5: "\<forall>x\<in>set [sample 7]. \<exists>d. x = PDict d" by (simp add: sample_def)
  show ?thesis
    using metrics_full_replace [OF h1 h2 h3 h4 h5, of state_two_samples] c by simp
qed

text \<open>
  The claim as stated fails for M = 0: after a sync with two samples, a sync with the
  empty series leaves both rows in place.
\<close>

theorem metrics_empty_series_counterexample:
  "length (filter (\<lambda>r. getattr r ''workout_id'' = PStr ''w1'')
     (pending state_two_samples Metrics)) = 2 \<and>
   length (filter (\<lambda>r. getattr r ''workout_id'' = PStr ''w1'')
     (pending (sync_workout_performance_data (env_series []) (PStr ''w1'') state_two_samples)
        Metrics)) = 2"
proof -
  have a: "map (\<lambda>r. getattr r ''workout_id'') (pending state_two_samples Metrics) =
        [PStr ''w1'', PStr ''w1'']"
    by (rule two_samples_rows)
  have b: "pending (sync_workout_performance_data (env_series []) (PStr ''w1'') state_two_samples)
        Metrics = pending state_two_samples Metrics"
    by (simp add: sync_workout_performance_data_def env_series_def env0_def sync_summary_def
          sync_metrics_def dget_def Let_def)
  have c: "length (filter (\<lambda>r. getattr r ''workout_id'' = PStr ''w1'')
     (pending state_two_samples Metrics)) = 2"
    using a by (auto simp: map_eq_Cons_conv)
  show ?thesis using b c by simp
qed

section \<open>Detail-sync gating\<close>

lemma upsert_workout_id:
  "getattr (fst (fst (upsert_workout E w s))) ''id'' = getattr w ''id''"
proof (cases "query_first (pending s) Workouts ''id'' (getattr w ''id'')")
  case None
  then show ?thesis by (simp add: upsert_workout_def)
next
  case (Some ex)
  then have i: "getattr ex ''id'' = getattr w ''id''"
    by (auto simp: query_first_def dest: find_Some_P)
  have "getattr (copy_fields [''id'', ''created_at''] w ex) ''id'' = getattr ex ''id''"
    unfolding copy_fields_def
    by (induction w arbitrary: ex) (auto simp: getattr_setattr)
  then show ?thesis
    using Some i by (simp add: upsert_workout_def Let_def getattr_setattr)
qed

lemma distinct_workout_keys: "distinct workout_keys"
  by (simp add: workout_keys_def)

lemma transform_workout_shape:
  assumes "transform_workout_data E (PDict d) = Inr w"
  obtains i rid t1 t2 t3 t4 where
    "map_of d ''id'' = Some i"
    "w = [sa_state, (''id'', i), opt d ''user_id'', (''ride_id'', rid), opt d ''name'',
            dflt d ''status'' (PStr []), dflt d ''fitness_discipline'' (PStr []),
            opt d ''workout_type'', opt d ''device_type'', opt d ''device_type_display_name'',
            opt d ''platform'', (''start_time'', t1), (''end_time'', t2),
            (''created_at_peloton'', t3), (''device_time_created_at'', t4),
            opt d ''timezone'', opt d ''total_work'', opt d ''leaderboard_rank'',
            opt d ''total_leaderboard_users'',
            dflt d ''is_total_work_personal_record'' (PBool False),
            dflt d ''has_leaderboard_metrics'' (PBool False),
            dflt d ''has_pedaling_metrics'' (PBool False), opt d ''metrics_type'',
            opt d ''fitbit_id'', opt d ''strava_id'', opt d ''title'']"
  using assms by (auto simp: bindE_Inr_iff split: option.splits)

lemma transform_workout_row:
  assumes "transform_workout_data E (PDict d) = Inr w"
  shows "distinct (map fst w)"
    and "getattr w ''id'' = dget d ''id'' PNone"
    and "getattr w ''status'' = dget d ''status'' (PStr [])"
    and "getattr w ''has_pedaling_metrics'' = dget d ''has_pedaling_metrics'' (PBool False)"
    and "''status'' \<in> fst ` set w" and "''has_pedaling_metrics'' \<in> fst ` set w"
proof -
  from assms obtain i rid t1 t2 t3 t4 where i: "map_of d ''id'' = Some i"
    and w: "w = [sa_state, (''id'', i), opt d ''user_id'', (''ride_id'', rid), opt d ''name'',
            dflt d ''status'' (PStr []), dflt d ''fitness_discipline'' (PStr []),
            opt d ''workout_type'', opt d ''device_type'', opt d ''device_type_display_name'',
            opt d ''platform'', (''start_time'', t1), (''end_time'', t2),
            (''created_at_peloton'', t3), (''device_time_created_at'', t4),
            opt d ''timezone'', opt d ''total_work'', opt d ''leaderboard_rank'',
            opt d ''total_leaderboard_users'',
            dflt d ''is_total_work_personal_record'' (PBool False),
            dflt d ''has_leaderboard_metrics'' (PBool False),
            dflt d ''has_pedaling_metrics'' (PBool False), opt d ''metrics_type'',
            opt d ''fitbit_id'', opt d ''strava_id'', opt d ''title'']"
    by (rule transform_workout_shape)
  have k: "map fst w = workout_keys"
    by (simp add: w opt_def dflt_def sa_state_def workout_keys_def)
  show "distinct (map fst w)" by (simp add: k distinct_workout_keys)
  have "set (map fst w) = set workout_keys" by (simp add: k)
  then have m: "fst ` set w = set workout_keys" by simp
  show "''status'' \<in> fst ` set w" "''has_pedaling_metrics'' \<in> fst ` set w"
    unfolding m by (simp_all add: workout_keys_def)
  show "getattr w ''id'' = dget d ''id'' PNone"
    by (simp add: w getattr_def sa_state_def dget_def i)
  show "getattr w ''status'' = dget d ''status'' (PStr [])"
    by (simp add: w getattr_def sa_state_def opt_def dflt_def)
  show "getattr w ''has_pedaling_metrics'' = dget d ''has_pedaling_metrics'' (PBool False)"
    by (simp add: w getattr_def sa_state_def opt_def dflt_def)
qed

lemma wants_performance_upsert:
  assumes "transform_workout_data E (PDict d) = Inr w"
  shows "wants_performance inc (fst (fst (upsert_workout E w s))) \<longleftrightarrow>
         inc \<and> dget d ''status'' (PStr []) = PStr ''COMPLETE'' \<and>
         truthy (dget d ''has_pedaling_metrics'' (PBool False))"
proof -
  note r = transform_workout_row[OF assms]
  have a: "getattr (fst (fst (upsert_workout E w s))) ''status'' = getattr w ''status''"
    by (rule upsert_workout_attr[OF r(1) r(5)]) (simp_all add: startswith_def)
  have b: "getattr (fst (fst (upsert_workout E w s))) ''has_pedaling_metrics'' =
           getattr w ''has_pedaling_metrics''"
    by (rule upsert_workout_attr[OF r(1) r(6)]) (simp_all add: startswith_def)
  show ?thesis by (simp add: wants_performance_def a b r(3,4))
qed

lemma upsert_components_fetched: "fetched (snd (upsert_components E c s)) = fetched s"
  by (simp add: upsert_components_def Let_def upsert_fetched split: prod.splits option.splits)

lemma upsert_components_workout:
  "\<exists>s2. fst (upsert_components E (i, r, w) s) = fst (upsert_workout E w s2)"
  by (auto simp: upsert_components_def Let_def)

lemma finish_workout_fetched:
  "fetched (snd (finish_workout E inc wd wk s)) =
     fetched s @ (if fst (sync_workout_achievements E wd s) = None \<and> wants_performance inc wk
                  then [getattr wk ''id''] else [])"
proof -
  obtain x s1 where a: "sync_workout_achievements E wd s = (x, s1)" by (metis surj_pair)
  have f: "fetched s1 = fetched s" using achievements_fetched[of E wd s] a by simp
  show ?thesis
    using a f
    by (cases x) (simp_all add: finish_workout_def commit_fetched performance_fetched)
qed

lemma sync_workout_try_fetched:
  "fetched (snd (snd (sync_workout_try E inc (PDict d) (st, s)))) =
     fetched s @
       (if (\<exists>c. extract_workout_components E (PDict d) = Inr c) \<and>
           fst (sync_workout_achievements E (PDict d) s) = None \<and>
           inc \<and> dget d ''status'' (PStr []) = PStr ''COMPLETE'' \<and>
           truthy (dget d ''has_pedaling_metrics'' (PBool False))
        then [dget d ''id'' PNone] else [])"
proof (cases "extract_workout_components E (PDict d)")
  case (Inl e)
  then show ?thesis by (simp add: sync_workout_try_def)
next
  case (Inr c)
  obtain i r w where c: "c = (i, r, w)" by (cases c)
  have tw: "transform_workout_data E (PDict d) = Inr w"
    using extract_returns[of E "PDict d" i r w] Inr c by simp
  obtain wk is_new s3 where u: "upsert_components E c s = ((wk, is_new), s3)"
    by (metis surj_pair)
  have f3: "fetched s3 = fetched s"
    using upsert_components_fetched[of E c s] u by simp
  obtain s2 where wk: "wk = fst (fst (upsert_workout E w s2))"
    using upsert_components_workout[of E i r w s] u c by (metis fst_conv)
  have g: "wants_performance inc wk \<longleftrightarrow>
         inc \<and> dget d ''status'' (PStr []) = PStr ''COMPLETE'' \<and>
         truthy (dget d ''has_pedaling_metrics'' (PBool False))"
    unfolding wk by (rule wants_performance_upsert[OF tw])
  have wid: "getattr wk ''id'' = dget d ''id'' PNone"
    unfolding wk by (simp add: upsert_workout_id transform_workout_row(2)[OF tw])
  have x: "fst (sync_workout_achievements E (PDict d) s3) =
           fst (sync_workout_achievements E (PDict d) s)"
    by (rule achievements_raise_indep)
  obtain y s4 where fw: "finish_workout E inc (PDict d) wk s3 = (y, s4)"
    by (metis surj_pair)
  have run: "sync_workout_try E inc (PDict d) (st, s) = (y, count_workout is_new st, s4)"
    by (simp add: sync_workout_try_def Inr u fw)
  have "fetched s4 =
     fetched s3 @ (if fst (sync_workout_achievements E (PDict d) s3) = None \<and>
                      wants_performance inc wk then [getattr wk ''id''] else [])"
    using finish_workout_fetched[of E inc "PDict d" wk s3] fw by simp
  then show ?thesis
    using Inr c f3 g wid x by (simp add: run)
qed

theorem detail_sync_gating:
  "fetched (snd (snd (sync_workout_try E inc (PDict d) (st, s)))) =
     fetched s @
       (if (\<exists>c. extract_workout_components E (PDict d) = Inr c) \<and>
           fst (sync_workout_achievements E (PDict d) s) = None \<and>
           inc \<and> dget d ''status'' (PStr []) = PStr ''COMPLETE'' \<and>
           truthy (dget d ''has_pedaling_metrics'' (PBool False))
        then [dget d ''id'' PNone] else [])"
  by (rule sync_workout_try_fetched)

lemma extract_payload_complete:
  "\<exists>c. extract_workout_components env0 (payload_complete p b) = Inr c"
  by (simp add: extract_workout_components_def payload_complete_def dget_def stamp_def
        parse_timestamp_def workout_ride_id_def)

lemma achievements_of_strings:
  "fst (sync_workout_achievements env0 (payload_complete p (PList [PStr ''x''])) state0) =
     Some AttributeError"
  by (simp add: sync_workout_achievements_def payload_complete_def dget_def Let_def
        transform_achievement_data_def)

lemma achievements_of_none:
  "fst (sync_workout_achievements env0 (payload_complete p (PList [])) state0) = None"
  by (simp add: sync_workout_achievements_def payload_complete_def dget_def)

text \<open>
  The claim as stated fails for a workout that raises before the gate: with
  \<open>include_performance\<close> set, status \<open>COMPLETE\<close> and \<open>has_pedaling_metrics\<close> true, a payload
  whose achievement list holds a string makes the achievement sync raise, and the
  performance graph is never requested.
\<close>

theorem detail_sync_gating_counterexample:
  "dget [(''id'', PStr ''w1''), (''user_id'', PStr ''u1''), (''status'', PStr ''COMPLETE''),
         (''has_pedaling_metrics'', PBool True), (''achievement_templates'', PList [PStr ''x''])]
     ''status'' (PStr []) = PStr ''COMPLETE'' \<and>
   truthy (dget [(''id'', PStr ''w1''), (''user_id'', PStr ''u1''), (''status'', PStr ''COMPLETE''),
         (''has_pedaling_metrics'', PBool True), (''achievement_templates'', PList [PStr ''x''])]
     ''has_pedaling_metrics'' (PBool False)) \<and>
   fetched (snd (snd (sync_workout_try env0 True
       (payload_complete (PBool True) (PList [PStr ''x''])) (stats0, state0)))) = []"
  using sync_workout_try_fetched [of env0 True _ stats0 state0]
    achievements_of_strings [of "PBool True"]
  by (simp add: payload_complete_def dget_def state0_def)

theorem detail_sync_gating_witness:
  "fetched (snd (snd (sync_workout_try env0 True
       (payload_complete (PBool True) (PList [])) (stats0, state0)))) = [PStr ''w1''] \<and>
   fetched (snd (snd (sync_workout_try env0 True
       (payload_complete (PBool False) (PList [])) (stats0, state0)))) = [] \<and>
   fetched (snd (snd (sync_workout_try env0 False
       (payload_complete (PBool True) (PList [])) (stats0, state0)))) = []"
  using detail_sync_gating [of env0 True _ stats0 state0]
    detail_sync_gating [of env0 False _ stats0 state0]
    achievements_of_none extract_payload_complete
  by (simp add: payload_complete_def dget_def state0_def)

section \<open>The run ledger and the final status\<close>

lemma write_back_frame:
  "T' \<noteq> T \<Longrightarrow> pending (write_back T c v r s) T' = pending s T'"
  "committed (write_back T c v r s) = committed s"
  "fetched (write_back T c v r s) = fetched s"
  by (simp_all add: write_back_def)

lemma session_add_frame:
  "T' \<noteq> T \<Longrightarrow> pending (session_add E T r s) T' = pending s T'"
  "committed (session_add E T r s) = committed s"
  "fetched (session_add E T r s) = fetched s"
  by (simp_all add: session_add_def)

lemma delete_where_pending:
  "T' \<noteq> T \<Longrightarrow> pending (delete_where T c v s) T' = pending s T'"
  by (simp add: delete_where_def)

lemma ledger_upserts:
  "ledger_is L s \<Longrightarrow> ledger_is L (snd (upsert_instructor E i s))"
  "ledger_is L s \<Longrightarrow> ledger_is L (snd (upsert_ride E r s))"
  "ledger_is L s \<Longrightarrow> ledger_is L (snd (upsert_workout E w s))"
  by (auto simp: ledger_is_def upsert_instructor_def upsert_ride_def upsert_workout_def Let_def
        write_back_frame session_add_frame split: option.splits)

lemma ledger_achievements:
  "ledger_is L s \<Longrightarrow> ledger_is L (snd (sync_workout_achievements E wd s))"
  by (auto simp: ledger_is_def sync_workout_achievements_def Let_def pending_session_add_all
        session_add_all_frame delete_where_pending delete_where_frame split: sum.splits)

lemma ledger_summary:
  "sync_summary E wid p s = Inr s1 \<Longrightarrow> ledger_is L s \<Longrightarrow> ledger_is L s1"
  by (auto simp: ledger_is_def sync_summary_def bindE_Inr_iff write_back_frame session_add_frame
        split: if_splits option.splits)

lemma ledger_metrics:
  "ledger_is L s \<Longrightarrow> ledger_is L (snd (sync_metrics E wid p s))"
  by (auto simp: ledger_is_def sync_metrics_def Let_def pending_session_add_all
        session_add_all_frame delete_where_pending delete_where_frame split: sum.splits)

lemma ledger_performance:
  "ledger_is L s \<Longrightarrow> ledger_is L (sync_workout_performance_data E wid s)"
proof -
  assume l: "ledger_is L s"
  then have l0: "ledger_is L (s\<lparr>fetched := fetched s @ [wid]\<rparr>)"
    by (simp add: ledger_is_def)
  show ?thesis
    using l0 ledger_summary ledger_metrics
    by (auto simp: sync_workout_performance_data_def Let_def split: sum.splits)
qed

lemma ledger_commit: "ledger_is L s \<Longrightarrow> ledger_is L (snd (commit E s))"
  by (simp add: ledger_is_def commit_def)

lemma ledger_rollback: "ledger_is L s \<Longrightarrow> ledger_is L (rollback s)"
  by (simp add: ledger_is_def rollback_def)

lemma ledger_upsert_components:
  "ledger_is L s \<Longrightarrow> ledger_is L (snd (upsert_components E c s))"
  by (simp add: upsert_components_def Let_def ledger_upserts split: prod.splits option.splits)

lemma ledger_finish:
  assumes "ledger_is L s"
  shows "ledger_is L (snd (finish_workout E inc wd wk s))"
proof -
  obtain x s1 where a: "sync_workout_achievements E wd s = (x, s1)" by (metis surj_pair)
  have l1: "ledger_is L s1" using ledger_achievements[OF assms, of E wd] a by simp
  show ?thesis
    using a l1
    by (cases x) (simp_all add: finish_workout_def ledger_commit ledger_performance)
qed

lemma ledger_try:
  assumes "ledger_is L s"
  shows "ledger_is L (snd (snd (sync_workout_try E inc wd (st, s))))"
proof (cases "extract_workout_components E wd")
  case (Inl e)
  then show ?thesis using assms by (simp add: sync_workout_try_def)
next
  case (Inr c)
  obtain wk is_new s3 where u: "upsert_components E c s = ((wk, is_new), s3)"
    by (metis surj_pair)
  have l3: "ledger_is L s3" using ledger_upsert_components[OF assms, of E c] u by simp
  obtain y s4 where fw: "finish_workout E inc wd wk s3 = (y, s4)" by (metis surj_pair)
  have "ledger_is L s4" using ledger_finish[OF l3, of E inc wd wk] fw by simp
  then show ?thesis by (simp add: sync_workout_try_def Inr u fw)
qed

lemma ledger_loop:
  "ledger_is L s \<Longrightarrow> ledger_is L (snd (snd (sync_loop E inc items (st, s))))"
proof (induction items arbitrary: st s)
  case Nil
  then show ?case by simp
next
  case (Cons wd rest)
  obtain x st1 s1 where t: "sync_workout_try E inc wd (st, s) = (x, st1, s1)"
    by (cases "sync_workout_try E inc wd (st, s)") auto
  have l1: "ledger_is L s1" using ledger_try[OF Cons.prems, of E inc wd st] t by simp
  show ?case
    using t l1 Cons.IH ledger_rollback
    by (auto split: option.splits sum.splits)
qed

lemma ledger_sync_workouts:
  assumes l: "ledger_is L s"
  shows "ledger_is L (snd (sync_workouts E u m inc s))"
proof -
  obtain x st1 s1 where t: "sync_workouts_try E m inc s = (x, st1, s1)"
    by (cases "sync_workouts_try E m inc s") auto
  have "ledger_is L (snd (snd (sync_workouts_try E m inc s)))"
    using l ledger_loop[OF l, of E inc]
    by (simp add: sync_workouts_try_def Let_def split: sum.splits)
  then have "ledger_is L s1" by (simp add: t)
  then show ?thesis
    using t by (cases x) (simp_all add: sync_workouts_def ledger_rollback)
qed

lemma ledger_sync_user_data:
  "ledger_is L s \<Longrightarrow> ledger_is L (snd (sync_user_data E s))"
  by (auto simp: ledger_is_def sync_user_data_def Let_def write_back_frame session_add_frame
        split: sum.splits option.splits)

lemma commit_cases:
  "commit E s = (x, s') \<Longrightarrow>
     (x = None \<and> store_accepts E (pending s) \<and> s' = s\<lparr>committed := pending s\<rparr>) \<or>
     (x = Some IntegrityError \<and> \<not> store_accepts E (pending s) \<and> s' = s)"
  by (auto simp: commit_def split: if_splits)

lemma full_sync_block_Inr:
  assumes "full_sync_block E uid m inc s0 = (Inr res, s4)"
  shows "\<exists>user s1 target.
     sync_user_data E s0 = (Inr user, s1) \<and>
     target = (if truthy uid then uid else getattr user ''id'') \<and>
     res = \<lparr>res_status = sync_status (fst (sync_workouts E target m inc s1)),
            res_user_id = target, res_stats = fst (sync_workouts E target m inc s1)\<rparr> \<and>
     store_accepts E (pending (create_sync_log E target ''full'' (res_status res) (res_stats res)
        PNone (snd (sync_workouts E target m inc s1)))) \<and>
     s4 = (create_sync_log E target ''full'' (res_status res) (res_stats res)
        PNone (snd (sync_workouts E target m inc s1)))
          \<lparr>committed := pending (create_sync_log E target ''full'' (res_status res) (res_stats res)
        PNone (snd (sync_workouts E target m inc s1)))\<rparr>"
proof -
  obtain r s1 where u: "sync_user_data E s0 = (r, s1)" by (metis surj_pair)
  from assms u obtain user where r: "r = Inr user"
    by (cases r) (auto simp: full_sync_block_def)
  define target where "target = (if truthy uid then uid else getattr user ''id'')"
  define st where "st = fst (sync_workouts E target m inc s1)"
  define s2 where "s2 = snd (sync_workouts E target m inc s1)"
  define s3 where "s3 = create_sync_log E target ''full'' (sync_status st) st PNone s2"
  obtain x s4' where c: "commit E s3 = (x, s4')" by (metis surj_pair)
  have blk: "full_sync_block E uid m inc s0 =
     (case x of Some e \<Rightarrow> (Inl e, rollback s4')
      | None \<Rightarrow> (Inr \<lparr>res_status = sync_status st, res_user_id = target, res_stats = st\<rparr>, s4'))"
    using c unfolding s3_def s2_def st_def target_def
    by (simp add: full_sync_block_def u r Let_def)
  from assms blk have x: "x = None" and res: "res = \<lparr>res_status = sync_status st, res_user_id = target, res_stats = st\<rparr>"
    and s4: "s4 = s4'"
    by (cases x; simp)+
  from commit_cases[OF c] x have acc: "store_accepts E (pending s3)"
    and s4': "s4' = s3\<lparr>committed := pending s3\<rparr>" by auto
  show ?thesis
    using u r res acc s4 s4'
    by (simp add: target_def st_def s2_def s3_def)
qed

lemma get_db_session_Inr:
  assumes "get_db_session E block s = (Inr v, s')"
  shows "\<exists>s1. block (s\<lparr>pending := committed s\<rparr>) = (Inr v, s1) \<and> commit E s1 = (None, s')"
  using assms
  by (auto simp: get_db_session_def split: prod.splits sum.splits option.splits)

lemma sync_status_cases:
  "(sync_status st = ''success'' \<longleftrightarrow> errors st = 0) \<and>
   (sync_status st = ''partial'' \<longleftrightarrow> errors st > 0 \<and> created st + updated st > 0) \<and>
   (sync_status st = ''error'' \<longleftrightarrow> errors st > 0 \<and> created st + updated st = 0)"
  by (simp add: sync_status_def)

lemma sync_workouts_empty:
  assumes "api_user_workouts E m = Inr (PDict w)" "dget w ''data'' (PList []) = PList []"
  shows "sync_workouts E u m inc s = (\<lparr>processed = 0, created = 0, updated = 0, errors = 0\<rparr>, s)"
  using assms by (simp add: sync_workouts_def sync_workouts_try_def)

lemma full_sync_ledger:
  assumes "full_sync E uid m inc s = (Inr res, s')"
  shows "res_status res = sync_status (res_stats res)"
    and "committed s' SyncLogs = committed s SyncLogs @
       [insert_row E SyncLogs
          (new_sync_log E (res_user_id res) ''full'' (res_status res) (res_stats res) PNone)]"
    and "api_user_workouts E m = Inr (PDict w) \<Longrightarrow> dget w ''data'' (PList []) = PList [] \<Longrightarrow>
         res_stats res = \<lparr>processed = 0, created = 0, updated = 0, errors = 0\<rparr>"
proof -
  let ?s0 = "s\<lparr>pending := committed s\<rparr>"
  from get_db_session_Inr[OF assms[unfolded full_sync_def]]
  obtain s4 where b: "full_sync_block E uid m inc ?s0 = (Inr res, s4)"
    and c: "commit E s4 = (None, s')" by blast
  from full_sync_block_Inr[OF b] obtain user s1 target where
    u: "sync_user_data E ?s0 = (Inr user, s1)"
    and res: "res = \<lparr>res_status = sync_status (fst (sync_workouts E target m inc s1)),
            res_user_id = target, res_stats = fst (sync_workouts E target m inc s1)\<rparr>"
    and s4: "s4 = (create_sync_log E target ''full'' (res_status res) (res_stats res)
        PNone (snd (sync_workouts E target m inc s1)))
          \<lparr>committed := pending (create_sync_log E target ''full'' (res_status res) (res_stats res)
        PNone (snd (sync_workouts E target m inc s1)))\<rparr>"
    by blast
  show st: "res_status res = sync_status (res_stats res)" by (simp add: res)
  have l0: "ledger_is (committed s SyncLogs) ?s0" by (simp add: ledger_is_def)
  have l1: "ledger_is (committed s SyncLogs) s1"
    using ledger_sync_user_data[OF l0, of E] u by simp
  have l2: "ledger_is (committed s SyncLogs) (snd (sync_workouts E target m inc s1))"
    by (rule ledger_sync_workouts[OF l1])
  have t: "res_user_id res = target" by (simp add: res)
  have "committed s4 SyncLogs = committed s SyncLogs @
       [insert_row E SyncLogs
          (new_sync_log E (res_user_id res) ''full'' (res_status res) (res_stats res) PNone)]"
    using l2 by (simp add: s4 t create_sync_log_def session_add_def ledger_is_def)
  moreover have "committed s' SyncLogs = committed s4 SyncLogs"
    using commit_cases[OF c] by (auto simp: s4)
  ultimately show "committed s' SyncLogs = committed s SyncLogs @
       [insert_row E SyncLogs
          (new_sync_log E (res_user_id res) ''full'' (res_status res) (res_stats res) PNone)]"
    by simp
  show "res_stats res = \<lparr>processed = 0, created = 0, updated = 0, errors = 0\<rparr>"
    if "api_user_workouts E m = Inr (PDict w)" "dget w ''data'' (PList []) = PList []"
    using sync_workouts_empty[OF that, of target inc s1] by (simp add: res)
qed

text \<open>
  C2. For every run of \<open>full_sync\<close> that completes, with the counters of its result:
  the status is \<open>success\<close> if and only if errored = 0, \<open>partial\<close> if and only if errored > 0
  and created + updated > 0, and \<open>error\<close> if and only if errored > 0 and created + updated
  = 0; the run has committed exactly one new ledger row, built from the result's user,
  status and counters. In particular, when the listing returns an empty \<open>data\<close> list, the
  counters are all zero and the status is \<open>success\<close>.
\<close>

theorem full_sync_status:
  "full_sync E uid m inc s = (Inr res, s') \<Longrightarrow>
     (res_status res = ''success'' \<longleftrightarrow> errors (res_stats res) = 0) \<and>
     (res_status res = ''partial'' \<longleftrightarrow>
        errors (res_stats res) > 0 \<and> created (res_stats res) + updated (res_stats res) > 0) \<and>
     (res_status res = ''error'' \<longleftrightarrow>
        errors (res_stats res) > 0 \<and> created (res_stats res) + updated (res_stats res) = 0) \<and>
     committed s' SyncLogs = committed s SyncLogs @
       [insert_row E SyncLogs
          (new_sync_log E (res_user_id res) ''full'' (res_status res) (res_stats res) PNone)] \<and>
     (\<forall>w. api_user_workouts E m = Inr (PDict w) \<and> dget w ''data'' (PList []) = PList [] \<longrightarrow>
        res_stats res = \<lparr>processed = 0, created = 0, updated = 0, errors = 0\<rparr> \<and>
        res_status res = ''success'')"
proof -
  assume a: "full_sync E uid m inc s = (Inr res, s')"
  note l = full_sync_ledger[OF a]
  have e: "res_status res = ''success''"
    if "res_stats res = \<lparr>processed = 0, created = 0, updated = 0, errors = 0\<rparr>"
    using that l(1) by (simp add: sync_status_def)
  have c: "(res_status res = ''success'' \<longleftrightarrow> errors (res_stats res) = 0) \<and>
     (res_status res = ''partial'' \<longleftrightarrow>
        errors (res_stats res) > 0 \<and> created (res_stats res) + updated (res_stats res) > 0) \<and>
     (res_status res = ''error'' \<longleftrightarrow>
        errors (res_stats res) > 0 \<and> created (res_stats res) + updated (res_stats res) = 0)"
    unfolding l(1) by (rule sync_status_cases)
  have z: "\<forall>w. api_user_workouts E m = Inr (PDict w) \<and> dget w ''data'' (PList []) = PList [] \<longrightarrow>
        res_stats res = \<lparr>processed = 0, created = 0, updated = 0, errors = 0\<rparr> \<and>
        res_status res = ''success''"
    using l(3) e by blast
  from c l(2) z show ?thesis by (intro conjI) (erule conjE | assumption)+
qed

lemmas transformer_defs =
  extract_workout_components_def stamp_def parse_timestamp_def workout_ride_id_def
  datetime_fromtimestamp_def of_dt_def opt_def dflt_def dget_def sa_state_def
  transform_achievement_data_def transform_performance_metrics_data_def

lemmas session_defs =
  query_first_def write_back_def copy_fields_def columns_def with_default_def insert_row_def
  session_add_def session_add_all_def delete_where_def flush_def commit_def rollback_def
  get_db_session_def getattr_def startswith_def now_def

lemmas loader_defs =
  sync_user_data_def upsert_instructor_def upsert_ride_def upsert_workout_def
  sync_summary_def sync_metrics_def sync_workout_performance_data_def
  sync_workout_achievements_def wants_performance_def upsert_components_def
  count_workout_def finish_workout_def sync_workout_try_def sync_workouts_try_def
  sync_workouts_def new_sync_log_def create_sync_log_def sync_status_def
  full_sync_block_def full_sync_def

lemma full_sync_env0:
  "fst (full_sync env0 PNone 100 True state0) =
     Inr \<lparr>res_status = ''success'', res_user_id = PStr ''u1'', res_stats = stats0\<rparr>"
  by (simp add: loader_defs session_defs transformer_defs env0_def state0_def stats0_def Let_def)

theorem full_sync_status_witness:
  "fst (full_sync env0 PNone 100 True state0) =
     Inr \<lparr>res_status = ''success'', res_user_id = PStr ''u1'', res_stats = stats0\<rparr> \<and>
   map (\<lambda>r. (getattr r ''user_id'', getattr r ''status'', getattr r ''workouts_processed'',
             getattr r ''workouts_created'', getattr r ''workouts_updated'',
             getattr r ''errors_count''))
     (committed (snd (full_sync env0 PNone 100 True state0)) SyncLogs) =
     [(PStr ''u1'', PStr ''success'', PInt 0, PInt 0, PInt 0, PInt 0)]"
proof -
  have run: "full_sync env0 PNone 100 True state0 =
     (Inr \<lparr>res_status = ''success'', res_user_id = PStr ''u1'', res_stats = stats0\<rparr>,
      snd (full_sync env0 PNone 100 True state0))"
    using full_sync_env0 by (metis prod.collapse)
  have "committed (snd (full_sync env0 PNone 100 True state0)) SyncLogs =
     committed state0 SyncLogs @
       [insert_row env0 SyncLogs (new_sync_log env0 (PStr ''u1'') ''full'' ''success'' stats0 PNone)]"
    using full_sync_status [OF run] by simp
  then show ?thesis
    using full_sync_env0
    by (simp add: state0_def stats0_def new_sync_log_def insert_row_def columns_def
          with_default_def getattr_def startswith_def sa_state_def now_def)
qed

section \<open>Run-level failures\<close>

lemma sync_user_data_committed: "committed (snd (sync_user_data E s)) = committed s"
  by (auto simp: sync_user_data_def Let_def write_back_frame session_add_frame
        split: sum.splits option.splits)

lemma full_sync_user_failure:
  assumes "sync_user_data E (s\<lparr>pending := committed s\<rparr>) = (Inl e, s1)"
  shows "fst (full_sync E uid m inc s) = Inl e"
    and "committed (snd (full_sync E uid m inc s)) = committed s"
    and "pending (snd (full_sync E uid m inc s)) = committed s"
proof -
  have c: "committed s1 = committed s"
    using sync_user_data_committed[of E "s\<lparr>pending := committed s\<rparr>"] assms by simp
  have r: "full_sync E uid m inc s = (Inl e, rollback (rollback s1))"
    by (simp add: full_sync_def get_db_session_def full_sync_block_def assms)
  show "fst (full_sync E uid m inc s) = Inl e" by (simp add: r)
  show "committed (snd (full_sync E uid m inc s)) = committed s"
    by (simp add: r rollback_def c)
  show "pending (snd (full_sync E uid m inc s)) = committed s"
    by (simp add: r rollback_def c)
qed

lemma full_sync_raise_rolled_back:
  "full_sync E uid m inc s = (Inl e, s') \<Longrightarrow> pending s' = committed s'"
  by (auto simp: full_sync_def get_db_session_def rollback_def
        split: prod.splits sum.splits option.splits)

lemma sync_workouts_listing_fails:
  "api_user_workouts E m = Inl e \<Longrightarrow>
   sync_workouts E u m inc s =
     (\<lparr>processed = 0, created = 0, updated = 0, errors = 1\<rparr>, rollback s)"
  by (simp add: sync_workouts_def sync_workouts_try_def)

lemma full_sync_block_Inl:
  assumes "full_sync_block E uid m inc s0 = (Inl e, s4)"
  shows "e = IntegrityError \<or> (\<exists>s1. sync_user_data E s0 = (Inl e, s1))"
proof -
  obtain r s1 where u: "sync_user_data E s0 = (r, s1)" by (metis surj_pair)
  show ?thesis
  proof (cases r)
    case (Inl e')
    then show ?thesis using assms u by (simp add: full_sync_block_def)
  next
    case (Inr user)
    then show ?thesis
      using assms u
      by (auto simp: full_sync_block_def Let_def commit_def split: if_splits)
  qed
qed

lemma full_sync_Inl:
  assumes "full_sync E uid m inc s = (Inl e, s')"
  shows "e = IntegrityError \<or> (\<exists>s1. sync_user_data E (s\<lparr>pending := committed s\<rparr>) = (Inl e, s1))"
proof -
  obtain r s4 where b: "full_sync_block E uid m inc (s\<lparr>pending := committed s\<rparr>) = (r, s4)"
    by (metis surj_pair)
  show ?thesis
  proof (cases r)
    case (Inl e')
    then have "e' = e" using assms b by (simp add: full_sync_def get_db_session_def)
    then show ?thesis using full_sync_block_Inl[of E uid m inc _ e s4] b Inl by simp
  next
    case (Inr v)
    then show ?thesis
      using assms b
      by (auto simp: full_sync_def get_db_session_def commit_def split: if_splits)
  qed
qed

lemma full_sync_listing_fails:
  assumes "api_user_workouts E m = Inl e" "full_sync E uid m inc s = (Inr res, s')"
  shows "res_status res = ''error''"
    and "res_stats res = \<lparr>processed = 0, created = 0, updated = 0, errors = 1\<rparr>"
proof -
  from get_db_session_Inr[OF assms(2)[unfolded full_sync_def]]
  obtain s4 where b: "full_sync_block E uid m inc (s\<lparr>pending := committed s\<rparr>) = (Inr res, s4)"
    by blast
  from full_sync_block_Inr[OF b] obtain s1 target where
    res: "res = \<lparr>res_status = sync_status (fst (sync_workouts E target m inc s1)),
            res_user_id = target, res_stats = fst (sync_workouts E target m inc s1)\<rparr>"
    by blast
  show "res_stats res = \<lparr>processed = 0, created = 0, updated = 0, errors = 1\<rparr>"
    by (simp add: res sync_workouts_listing_fails[OF assms(1)])
  show "res_status res = ''error''"
    by (simp add: res sync_workouts_listing_fails[OF assms(1)] sync_status_def)
qed

text \<open>
  C3, as amended. An exception raised by \<open>sync_user_data\<close> aborts the run: \<open>full_sync\<close>
  raises the same exception, nothing is committed and the session is rolled back.
  Whenever \<open>full_sync\<close> raises, the session is rolled back, and the exception is the one
  of \<open>sync_user_data\<close> or the store's rejection of the ledger commit. An exception raised
  by the initial workout listing is not raised again: \<open>sync_workouts\<close> catches it, counts
  one error with nothing processed, rolls the session back, and a run that completes
  reports the status \<open>error\<close>.
\<close>

theorem full_sync_run_level_failures:
  "(\<forall>e s1. sync_user_data E (s\<lparr>pending := committed s\<rparr>) = (Inl e, s1) \<longrightarrow>
       fst (full_sync E uid m inc s) = Inl e \<and>
       committed (snd (full_sync E uid m inc s)) = committed s \<and>
       pending (snd (full_sync E uid m inc s)) = committed s) \<and>
   (\<forall>e s'. full_sync E uid m inc s = (Inl e, s') \<longrightarrow>
       pending s' = committed s' \<and>
       (e = IntegrityError \<or>
        (\<exists>s1. sync_user_data E (s\<lparr>pending := committed s\<rparr>) = (Inl e, s1)))) \<and>
   (\<forall>e. api_user_workouts E m = Inl e \<longrightarrow>
       sync_workouts E u m inc s =
         (\<lparr>processed = 0, created = 0, updated = 0, errors = 1\<rparr>, rollback s) \<and>
       (\<forall>res s'. full_sync E uid m inc s = (Inr res, s') \<longrightarrow>
          res_status res = ''error'' \<and>
          res_stats res = \<lparr>processed = 0, created = 0, updated = 0, errors = 1\<rparr>))"
  using full_sync_user_failure[of E s _ _ uid m inc] full_sync_raise_rolled_back[of E uid m inc s]
    full_sync_Inl[of E uid m inc s] sync_workouts_listing_fails[of E m _ u inc s]
    full_sync_listing_fails[of E m _ uid inc s]
  by (intro conjI allI impI) blast+

lemma full_sync_unreachable:
  "fst (full_sync env_unreachable PNone 100 True state_u1) =
     Inr \<lparr>res_status = ''error'', res_user_id = PStr ''u1'',
          res_stats = \<lparr>processed = 0, created = 0, updated = 0, errors = 1\<rparr>\<rparr>"
  by (simp add: loader_defs session_defs transformer_defs env_unreachable_def env0_def
        state_u1_def Let_def)

text \<open>
  The claim as stated fails when the remote source is unreachable during the initial
  listing: for a user already in the store, the run returns a result with status
  \<open>error\<close> and one error counted; the exception does not reach the caller.
\<close>

theorem full_sync_listing_counterexample:
  "api_user_workouts env_unreachable 100 = Inl PelotonAPIError \<and>
   fst (full_sync env_unreachable PNone 100 True state_u1) =
     Inr \<lparr>res_status = ''error'', res_user_id = PStr ''u1'',
          res_stats = \<lparr>processed = 0, created = 0, updated = 0, errors = 1\<rparr>\<rparr>"
  using full_sync_unreachable by (simp add: env_unreachable_def)

lemma sync_user_data_no_user:
  "sync_user_data env_no_user (state_u1\<lparr>pending := committed state_u1\<rparr>) =
     (Inl PelotonAPIError, state_u1\<lparr>pending := committed state_u1\<rparr>)"
  by (simp add: sync_user_data_def env_no_user_def env0_def)

theorem full_sync_run_level_failures_witness:
  "fst (full_sync env_no_user PNone 100 True state_u1) = Inl PelotonAPIError \<and>
   committed (snd (full_sync env_no_user PNone 100 True state_u1)) = committed state_u1 \<and>
   pending (snd (full_sync env_no_user PNone 100 True state_u1)) = committed state_u1 \<and>
   sync_workouts env_unreachable (PStr ''u1'') 100 True state_u1 =
     (\<lparr>processed = 0, created = 0, updated = 0, errors = 1\<rparr>, rollback state_u1)"
proof -
  have l: "api_user_workouts env_unreachable 100 = Inl PelotonAPIError"
    by (simp add: env_unreachable_def)
  show ?thesis
    using full_sync_run_level_failures [of env_no_user state_u1 PNone 100 True "PStr ''u1''"]
      full_sync_run_level_failures [of env_unreachable state_u1 PNone 100 True "PStr ''u1''"]
      sync_user_data_no_user l
    by blast
qed

section \<open>Creation timestamps and the user upsert\<close>

lemma copy_fields_skip:
  "k \<in> set skip \<Longrightarrow> getattr (copy_fields skip obj ex) k = getattr ex k"
  unfolding copy_fields_def
  by (induction obj arbitrary: ex) (auto simp: getattr_setattr)

lemma upsert_instructor_keeps_created_at:
  "query_first (pending s) Instructors ''id'' (getattr i ''id'') = Some ex \<Longrightarrow>
   getattr (fst (upsert_instructor E i s)) ''created_at'' = getattr ex ''created_at''"
  by (simp add: upsert_instructor_def Let_def getattr_setattr copy_fields_skip)

lemma upsert_ride_keeps_created_at:
  "query_first (pending s) Rides ''id'' (getattr r ''id'') = Some ex \<Longrightarrow>
   getattr (fst (upsert_ride E r s)) ''created_at'' = getattr ex ''created_at''"
  by (simp add: upsert_ride_def Let_def getattr_setattr copy_fields_skip)

lemma upsert_workout_keeps_created_at:
  "query_first (pending s) Workouts ''id'' (getattr w ''id'') = Some ex \<Longrightarrow>
   getattr (fst (fst (upsert_workout E w s))) ''created_at'' = getattr ex ''created_at''"
  by (simp add: upsert_workout_def Let_def getattr_setattr copy_fields_skip)

text \<open>
  C5. The claim holds for Instructor, Ride and Workout (the three lemmas above: the
  existing row keeps its \<open>created_at\<close>), not for User: \<open>sync_user_data\<close> skips only \<open>id\<close>,
  so the stored \<open>created_at\<close> of an existing user is overwritten by the candidate's. Here
  the user \<open>u1\<close>, stored with creation instant 100, is synced from a payload that says
  200, and from a payload without \<open>created_at\<close>: the stored value becomes 200, and None.
\<close>

theorem user_created_at_overwritten:
  "map (\<lambda>r. (getattr r ''id'', getattr r ''created_at'')) (pending state_u1 Users) =
     [(PStr ''u1'', PDatetime (Datetime 100 (Some UTC)))] \<and>
   map (\<lambda>r. (getattr r ''id'', getattr r ''created_at''))
     (pending (snd (sync_user_data env0 state_u1)) Users) =
     [(PStr ''u1'', PDatetime (Datetime 200 (Some UTC)))] \<and>
   map (\<lambda>r. (getattr r ''id'', getattr r ''created_at''))
     (pending (snd (sync_user_data env_user_undated state_u1)) Users) =
     [(PStr ''u1'', PNone)]"
  by (simp add: loader_defs session_defs transformer_defs env_user_undated_def env0_def
        state_u1_def Let_def)

text \<open>
  C6. The User upsert is only flushed, never committed on its own, so it shares the
  transaction of the first workout. On an empty store, with a batch whose only payload
  has no id, the rollback of that workout discards the user: the run completes, its
  ledger row for \<open>u1\<close> is committed, and the users table is empty.
\<close>

theorem user_upsert_rolled_back:
  "fst (full_sync env_first_fails PNone 100 True state0) =
     Inr \<lparr>res_status = ''error'', res_user_id = PStr ''u1'',
          res_stats = \<lparr>processed = 1, created = 0, updated = 0, errors = 1\<rparr>\<rparr> \<and>
   committed (snd (full_sync env_first_fails PNone 100 True state0)) Users = [] \<and>
   map (\<lambda>r. getattr r ''user_id'')
     (committed (snd (full_sync env_first_fails PNone 100 True state0)) SyncLogs) = [PStr ''u1'']"
  by (simp add: loader_defs session_defs transformer_defs env_first_fails_def env0_def
        state0_def Let_def)

text \<open>
  Whatever the store's constraints accept or reject, the user is not persisted by that
  run.
\<close>

lemma user_upsert_rolled_back_any_store:
  "committed (snd (full_sync (env_first_fails\<lparr>store_accepts := acc\<rparr>) PNone 100 True state0))
     Users = []"
  by (simp add: loader_defs session_defs transformer_defs env_first_fails_def env0_def
        state0_def Let_def)

section \<open>Failure containment and the counters\<close>

text \<open>
  The counter of a workout is incremented right after its upsert (lines 268 to 271),
  before the achievement sync, the detail sync and the commit can fail. A workout that
  the store rejects at its commit (here: no \<open>start_time\<close>, a not-null column) is rolled
  back and counted twice, as created and as errored: the run reports \<open>partial\<close> although
  no workout was persisted.
\<close>

lemma rejected_workout_counted_as_created:
  "fst (full_sync env_undated_workout PNone 100 True state0) =
     Inr \<lparr>res_status = ''partial'', res_user_id = PStr ''u1'',
          res_stats = \<lparr>processed = 1, created = 1, updated = 0, errors = 1\<rparr>\<rparr> \<and>
   committed (snd (full_sync env_undated_workout PNone 100 True state0)) Workouts = []"
  by code_simp

text \<open>
  C1. A batch of two payloads on an empty store: the first is well formed, the second
  raises during its reconciliation, after its upsert (its achievement list holds a
  string). The run completes with processed = 2 and errored = 1 and only the first
  workout is persisted, as the claim says; but created + updated = 2, not the one
  payload that did not fail.
\<close>

theorem failed_workout_counted_as_created:
  "fst (full_sync env_batch PNone 100 True state0) =
     Inr \<lparr>res_status = ''partial'', res_user_id = PStr ''u1'',
          res_stats = \<lparr>processed = 2, created = 2, updated = 0, errors = 1\<rparr>\<rparr> \<and>
   map (\<lambda>r. getattr r ''id'')
     (committed (snd (full_sync env_batch PNone 100 True state0)) Workouts) = [PStr ''w1'']"
  by code_simp

end
